theory Spec2Isabelle
  imports Complex_Main "HOL-Library.Multiset"
begin

section \<open>Data model\<close>

text \<open>
  The development embeds \<^verbatim>\<open>pkg/job/abstract.go\<close>: the scrape orchestrator
  \<^verbatim>\<open>ScrapeAwsData\<close>, the three scrape units and the helpers they share.

  Go pointers that the code compares with \<^verbatim>\<open>nil\<close> or dereferences are options
  (\<open>None\<close> is \<^verbatim>\<open>nil\<close>). \<^verbatim>\<open>int\<close> and \<^verbatim>\<open>int64\<close> are mathematical
  integers, with the 64-bit wrap-around written out at the one place where the code adds
  (\<open>wrap64\<close>). \<^verbatim>\<open>float64\<close> metric values are reals: the code only copies them.

  Every function returns, next to its result, the events that its goroutine performs and
  the runs of the goroutines it spawns, in the order in which it spawns them. What the
  scheduler and the random source decide is a parameter: the order in which goroutines
  complete and append to the shared results, and the numbers that \<^verbatim>\<open>rand.Int()\<close>
  returns. Panics are values, and a call that never returns has an outcome of its own.
\<close>

type_synonym Tag = "string \<times> string"
type_synonym Dimension = "string \<times> string"
type_synonym Datapoint = "int \<times> real"
type_synonym CwMetric = "Dimension list"
type_synonym ExportedTagsOnMetrics = "(string \<times> string list) list"

record Role =
  RoleArn :: string
  ExternalID :: string

text \<open>\<^verbatim>\<open>config.Metric\<close>, \<^verbatim>\<open>config.Job\<close>, \<^verbatim>\<open>config.Static\<close>,
  \<^verbatim>\<open>config.CustomNamespace\<close> and \<^verbatim>\<open>config.ScrapeConf\<close>: the fields that
  \<^verbatim>\<open>abstract.go\<close> reads. Field names carry a prefix because the Go structs share
  names.\<close>

record config_Metric =
  m_Name :: string
  m_Statistics :: "string list"
  m_Period :: int
  m_Length :: int
  m_Delay :: int
  m_NilToZero :: "bool option"
  m_AddCloudwatchTimestamp :: "bool option"

record config_Job =
  j_Type :: string
  j_Roles :: "Role list"
  j_Regions :: "string list"
  j_Metrics :: "config_Metric list"
  j_Length :: int
  j_Delay :: int
  j_RoundingPeriod :: "int option"
  j_CustomTags :: "Tag list"
  j_DimensionNameRequirements :: "string list"

record config_Static =
  s_Name :: string
  s_Namespace :: string
  s_Roles :: "Role list"
  s_Regions :: "string list"
  s_Metrics :: "config_Metric list"
  s_CustomTags :: "Tag list"
  s_Dimensions :: "Dimension list"

record config_CustomNamespace =
  c_Name :: string
  c_Namespace :: string
  c_Roles :: "Role list"
  c_Regions :: "string list"
  c_Metrics :: "config_Metric list"
  c_Length :: int
  c_Delay :: int
  c_RoundingPeriod :: "int option"
  c_CustomTags :: "Tag list"
  c_DimensionNameRequirements :: "string list"

record ScrapeConf =
  Discovery_Jobs :: "config_Job list"
  Discovery_ExportedTagsOnMetrics :: ExportedTagsOnMetrics
  Static :: "config_Static list"
  CustomNamespace :: "config_CustomNamespace list"

record TaggedResource =
  tr_ARN :: string
  tr_Tags :: "Tag list"

record ServiceFilter =
  sf_Namespace :: string
  sf_DimensionRegexps :: "string list"

text \<open>\<^verbatim>\<open>cloudwatchData\<close>, the query record that is batched and merged. Its declaration is
  in another file of the package; the fields are those that \<^verbatim>\<open>abstract.go\<close> sets.
  \<open>GetMetricDataPoint\<close> and \<open>GetMetricDataTimestamps\<close> are the result slot.\<close>

record cloudwatchData =
  ID :: "string option"
  MetricID :: "string option"
  Metric :: "string option"
  Namespace :: "string option"
  Statistics :: "string list"
  Points :: "Datapoint list option"
  GetMetricDataPoint :: "real option"
  GetMetricDataTimestamps :: "int option"
  NilToZero :: "bool option"
  AddCloudwatchTimestamp :: "bool option"
  CustomTags :: "Tag list"
  Dimensions :: "Dimension list"
  Region :: "string option"
  AccountId :: "string option"
  Period :: int

text \<open>One entry of the batched response (\<^verbatim>\<open>cloudwatch.MetricDataResult\<close> of the SDK):
  the echoed correlation id, a pointer, and the value and timestamp sequences, whose
  elements are pointers too.\<close>

record MetricDataResult =
  r_Id :: "string option"
  r_Values :: "real option list"
  r_Timestamps :: "int option list"

text \<open>The requests. \<^verbatim>\<open>createGetMetricDataInput\<close> and
  \<^verbatim>\<open>createGetMetricStatisticsInput\<close> are in another file of the package; a request
  is represented by the arguments that \<^verbatim>\<open>abstract.go\<close> passes to them.\<close>

record GetMetricDataInput =
  gmd_Queries :: "cloudwatchData list"
  gmd_Namespace :: string
  gmd_Length :: int
  gmd_Delay :: int
  gmd_RoundingPeriod :: "int option"

record GetMetricStatisticsInput =
  gms_Dimensions :: "Dimension list"
  gms_Namespace :: string
  gms_Metric :: config_Metric

definition createGetMetricDataInput ::
  "cloudwatchData list \<Rightarrow> string \<Rightarrow> int \<Rightarrow> int \<Rightarrow> int option \<Rightarrow> GetMetricDataInput" where
  "createGetMetricDataInput queries namespace len delay roundingPeriod =
     \<lparr>gmd_Queries = queries, gmd_Namespace = namespace, gmd_Length = len,
      gmd_Delay = delay, gmd_RoundingPeriod = roundingPeriod\<rparr>"

definition createGetMetricStatisticsInput ::
  "Dimension list \<Rightarrow> string \<Rightarrow> config_Metric \<Rightarrow> GetMetricStatisticsInput" where
  "createGetMetricStatisticsInput dimensions namespace metric =
     \<lparr>gms_Dimensions = dimensions, gms_Namespace = namespace, gms_Metric = metric\<rparr>"

subsection \<open>Collaborators\<close>

text \<open>The clients handed out by the session cache. Each call is a function of its request:
  \<open>getMetricData\<close> returns \<open>None\<close> for a \<^verbatim>\<open>nil\<close> response and otherwise the
  response's \<^verbatim>\<open>MetricDataResults\<close>; \<open>get\<close> returns the point list, \<open>None\<close> when it
  is \<^verbatim>\<open>nil\<close>; \<open>getFullMetricsList\<close> (a helper of the package that lists the metric
  catalog through the client) returns an error or the catalog entries.\<close>

record cloudwatchInterface =
  getMetricData :: "GetMetricDataInput \<Rightarrow> MetricDataResult list option"
  get :: "GetMetricStatisticsInput \<Rightarrow> Datapoint list option"
  getFullMetricsList :: "string \<Rightarrow> config_Metric \<Rightarrow> string + CwMetric list"

text \<open>\<^verbatim>\<open>clientTag.Get(ctx, job, region)\<close> returns the resources and an error.\<close>

type_synonym TagsInterface = "config_Job \<Rightarrow> string \<Rightarrow> TaggedResource list \<times> string option"

text \<open>\<^verbatim>\<open>session.SessionCache\<close>. \<open>GetSTS role\<close> stands for
  \<^verbatim>\<open>cache.GetSTS(role).GetCallerIdentityWithContext(...)\<close>: the pair of the result
  pointer (whose \<^verbatim>\<open>Account\<close> field is a pointer again) and the error.\<close>

record SessionCache =
  GetSTS :: "Role \<Rightarrow> string option option \<times> string option"
  GetCloudwatch :: "string \<Rightarrow> Role \<Rightarrow> cloudwatchInterface"
  GetTagging :: "string \<Rightarrow> Role \<Rightarrow> TagsInterface"

text \<open>Functions and constants of the repository that \<^verbatim>\<open>abstract.go\<close> uses and that
  live in other files: they are parameters of the model.\<close>

record Helpers =
  DefaultLengthSeconds :: int
  GetService :: "string \<Rightarrow> ServiceFilter"
  getFilteredMetricDatas ::
    "string \<Rightarrow> string option \<Rightarrow> config_Job \<Rightarrow> ExportedTagsOnMetrics \<Rightarrow> ServiceFilter \<Rightarrow>
     TaggedResource list \<Rightarrow> CwMetric list \<Rightarrow> config_Metric \<Rightarrow> cloudwatchData list"
  metricDimensionsMatchNames :: "CwMetric \<Rightarrow> string list \<Rightarrow> bool"
  createStaticDimensions :: "Dimension list \<Rightarrow> Dimension list"

subsection \<open>Effects\<close>

text \<open>The two rate gates are the channels \<^verbatim>\<open>tagSemaphore\<close> and
  \<^verbatim>\<open>cloudwatchSemaphore\<close>. Every goroutine is modelled together with the sequence of
  events it performs: sends to and receives from the gates, calls of the collaborators,
  log entries.\<close>

datatype gate = TagGate | DataGate

datatype event =
    Acquire gate
  | Release gate
  | CacheRefresh
  | CacheClear
  | GetCallerIdentity Role
  | TagGet string
  | ListMetrics string string
  | GetMetricData GetMetricDataInput
  | GetMetricStatistics GetMetricStatisticsInput
  | LogError string
  | LogInfo string
  | LogDebug string

datatype panic =
    NilPointerDereference
  | IndexOutOfRange
  | SliceBoundsOutOfRange
  | NegativeWaitGroupCounter

text \<open>What a call does in the end: it returns, the process panics, or the call never
  returns (the spawning loop does not end, or \<^verbatim>\<open>wg.Wait()\<close> blocks for ever).\<close>

datatype 'a outcome = Returns 'a | Panics panic | NoReturn

definition wrap64 :: "int \<Rightarrow> int" where
  "wrap64 x = (x + 2 ^ 63) mod 2 ^ 64 - 2 ^ 63"

text \<open>Goroutines append to the shared result under a mutex in the order in which they
  complete. That order is a parameter: a list of goroutine indices.\<close>

definition inCompletionOrder :: "nat list \<Rightarrow> 'a list list \<Rightarrow> 'a list" where
  "inCompletionOrder order outs =
     concat (map (\<lambda>k. if k < length outs then outs ! k else []) order)"

section \<open>The request window length\<close>

fun lengthLoop :: "int \<Rightarrow> config_Metric list \<Rightarrow> int" where
  "lengthLoop len [] = len"
| "lengthLoop len (metric # metrics) =
     lengthLoop (if m_Length metric > len then m_Length metric else len) metrics"

definition getMetricDataInputLength :: "Helpers \<Rightarrow> config_Job \<Rightarrow> int" where
  "getMetricDataInputLength h job =
     (let len = DefaultLengthSeconds h;
          len = (if j_Length job > 0 then j_Length job else len)
      in lengthLoop len (j_Metrics job))"

section \<open>Merging a batched response\<close>

text \<open>Modelled from the spec: \<^verbatim>\<open>findGetMetricDataById\<close> is in another file of the
  package. The spec says of it: for each returned id, locate the query in the same slice
  with exactly that correlation id; if absent, discard the result. The call site shows
  that it returns the query by value, together with an error. Where several queries of
  the slice carry the id, the first one is taken.\<close>

fun findGetMetricDataById :: "cloudwatchData list \<Rightarrow> string \<Rightarrow> string + cloudwatchData" where
  "findGetMetricDataById [] v = Inl ''Metric not found''"
| "findGetMetricDataById (g # gs) v =
     (if MetricID g = Some v then Inr g else findGetMetricDataById gs v)"

text \<open>The store of one batch worker. Cell \<open>k\<close> of the list is the object at address
  \<open>k\<close>. The cells below the length of the slice are the elements of the slice
  \<^verbatim>\<open>input\<close>; every \<^verbatim>\<open>getMetricData\<close> variable whose address is appended to
  \<^verbatim>\<open>output\<close> is a fresh cell. Slices of different workers do not overlap, so every
  worker has a store of its own.\<close>

type_synonym addr = nat
type_synonym store = "cloudwatchData list"

text \<open>Lines 311 to 314: the slot of the copy is set when the value sequence is not
  empty. Indexing an empty timestamp sequence panics.\<close>

definition setResult :: "cloudwatchData \<Rightarrow> MetricDataResult \<Rightarrow> panic + cloudwatchData" where
  "setResult found r =
     (if length (r_Values r) \<noteq> 0
      then (if r_Timestamps r = [] then Inl IndexOutOfRange
            else Inr (found\<lparr>GetMetricDataPoint := r_Values r ! 0,
                             GetMetricDataTimestamps := r_Timestamps r ! 0\<rparr>))
      else Inr found)"

text \<open>The body of the loop over \<^verbatim>\<open>data.MetricDataResults\<close>, the same in both batching
  units: the copy lives in a fresh cell, whose address is appended to \<^verbatim>\<open>output\<close>.\<close>

definition mergeStep ::
  "addr list \<Rightarrow> store \<times> addr list \<Rightarrow> MetricDataResult \<Rightarrow> panic + store \<times> addr list" where
  "mergeStep input st r =
     (case st of (mem, output) \<Rightarrow>
      (case r_Id r of
         None \<Rightarrow> Inl NilPointerDereference
       | Some v \<Rightarrow>
          (case findGetMetricDataById (map (\<lambda>a. mem ! a) input) v of
             Inl err \<Rightarrow> Inr (mem, output)
           | Inr found \<Rightarrow>
              (case setResult found r of
                 Inl p \<Rightarrow> Inl p
               | Inr copy \<Rightarrow> Inr (mem @ [copy], output @ [length mem])))))"

fun mergeResults ::
  "addr list \<Rightarrow> store \<times> addr list \<Rightarrow> MetricDataResult list \<Rightarrow> panic + store \<times> addr list" where
  "mergeResults input st [] = Inr st"
| "mergeResults input st (r # rs) =
     (case mergeStep input st r of
        Inl p \<Rightarrow> Inl p
      | Inr st' \<Rightarrow> mergeResults input st' rs)"

text \<open>Lines 305 to 321 and 370 to 386: nothing is appended for a \<^verbatim>\<open>nil\<close> response.\<close>

definition mergeResponse ::
  "cloudwatchData list \<Rightarrow> MetricDataResult list option \<Rightarrow> panic + store \<times> addr list" where
  "mergeResponse input data =
     (case data of
        None \<Rightarrow> Inr (input, [])
      | Some results \<Rightarrow> mergeResults [0..<length input] (input, []) results)"

section \<open>Partitioning into batches\<close>

text \<open>Lines 299 to 303 and 364 to 368: the slice of one worker. The sum \<^verbatim>\<open>i + maxMetricCount\<close>
  wraps around; the slice expression panics unless \<open>0 \<le> i \<le> e\<close> (the upper bound
  \<open>e\<close> never exceeds the length, because of the clamp before it).\<close>

definition batchInput :: "cloudwatchData list \<Rightarrow> int \<Rightarrow> int \<Rightarrow> panic + cloudwatchData list" where
  "batchInput getMetricDatas maxMetricCount i =
     (let metricDataLength = int (length getMetricDatas);
          e = wrap64 (i + maxMetricCount);
          e = (if e > metricDataLength then metricDataLength else e)
      in if 0 \<le> i \<and> i \<le> e
         then Inr (take (nat (e - i)) (drop (nat i) getMetricDatas))
         else Inl SliceBoundsOutOfRange)"

text \<open>A batch worker: the slice it was given, the events it performs, and the store and
  the pointers it appends to \<^verbatim>\<open>cw\<close> (or the panic that ends it).\<close>

record batchWorker =
  bw_input :: "panic + cloudwatchData list"
  bw_events :: "event list"
  bw_merged :: "panic + store \<times> addr list"

text \<open>The goroutine of lines 297 to 322 (Discovery).\<close>

definition discoveryWorker ::
  "cloudwatchInterface \<Rightarrow> ServiceFilter \<Rightarrow> int \<Rightarrow> config_Job \<Rightarrow> int option \<Rightarrow>
   cloudwatchData list \<Rightarrow> int \<Rightarrow> int \<Rightarrow> batchWorker" where
  "discoveryWorker clientCloudwatch svc len job roundingPeriod getMetricDatas maxMetricCount i =
     (case batchInput getMetricDatas maxMetricCount i of
        Inl p \<Rightarrow> \<lparr>bw_input = Inl p, bw_events = [], bw_merged = Inl p\<rparr>
      | Inr input \<Rightarrow>
          (let req = createGetMetricDataInput input (sf_Namespace svc) len (j_Delay job)
                       roundingPeriod;
               data = getMetricData clientCloudwatch req
           in \<lparr>bw_input = Inr input,
               bw_events = [GetMetricData req],
               bw_merged = mergeResponse input data\<rparr>))"

text \<open>The goroutine of lines 356 to 387 (CustomNamespace): the same, between a send to
  \<^verbatim>\<open>cloudwatchSemaphore\<close> and a deferred receive from it, which also runs when the
  goroutine panics.\<close>

definition customNamespaceWorker ::
  "cloudwatchInterface \<Rightarrow> config_CustomNamespace \<Rightarrow> cloudwatchData list \<Rightarrow> int \<Rightarrow> int \<Rightarrow>
   batchWorker" where
  "customNamespaceWorker clientCloudwatch customNamespaceJob getMetricDatas maxMetricCount i =
     (case batchInput getMetricDatas maxMetricCount i of
        Inl p \<Rightarrow> \<lparr>bw_input = Inl p, bw_events = [Acquire DataGate, Release DataGate],
                  bw_merged = Inl p\<rparr>
      | Inr input \<Rightarrow>
          (let req = createGetMetricDataInput input (c_Namespace customNamespaceJob)
                       (c_Length customNamespaceJob) (c_Delay customNamespaceJob)
                       (c_RoundingPeriod customNamespaceJob);
               data = getMetricData clientCloudwatch req
           in \<lparr>bw_input = Inr input,
               bw_events = [Acquire DataGate, GetMetricData req, Release DataGate],
               bw_merged = mergeResponse input data\<rparr>))"

text \<open>The loop \<^verbatim>\<open>for i := 0; i < metricDataLength; i += maxMetricCount\<close> of lines 296
  and 355, which starts one goroutine per iteration. With \<^verbatim>\<open>maxMetricCount = 0\<close> it
  does not end: the result is \<open>None\<close>.\<close>

partial_function (option) spawnBatches ::
  "(int \<Rightarrow> 'w) \<Rightarrow> int \<Rightarrow> int \<Rightarrow> int \<Rightarrow> 'w list \<Rightarrow> 'w list option" where
  "spawnBatches worker maxMetricCount metricDataLength i spawned =
     (if i < metricDataLength
      then spawnBatches worker maxMetricCount metricDataLength (wrap64 (i + maxMetricCount))
             (spawned @ [worker i])
      else Some spawned)"

text \<open>\<^verbatim>\<open>int(math.Ceil(float64(metricDataLength) / float64(maxMetricCount)))\<close>, the
  counter given to the wait group. The quotient is taken in the reals, which is what the
  \<^verbatim>\<open>float64\<close> expression computes as long as both numbers are below \<open>2 ^ 53\<close>.
  Dividing by zero gives \<^verbatim>\<open>+Inf\<close>, whose conversion to \<^verbatim>\<open>int\<close> depends on the
  platform; on amd64 it is the least integer.\<close>

definition partitionCount :: "int \<Rightarrow> int \<Rightarrow> int" where
  "partitionCount metricDataLength maxMetricCount =
     (if maxMetricCount = 0 then - (2 ^ 63)
      else \<lceil>real_of_int metricDataLength / real_of_int maxMetricCount\<rceil>)"

fun firstPanic :: "batchWorker list \<Rightarrow> panic option" where
  "firstPanic [] = None"
| "firstPanic (w # ws) = (case bw_merged w of Inl p \<Rightarrow> Some p | Inr m \<Rightarrow> firstPanic ws)"

text \<open>The objects behind the pointers that a worker appends to \<^verbatim>\<open>cw\<close>.\<close>

definition appendedBy :: "batchWorker \<Rightarrow> cloudwatchData list" where
  "appendedBy w =
     (case bw_merged w of
        Inl p \<Rightarrow> []
      | Inr m \<Rightarrow> (case m of (mem, output) \<Rightarrow> map (\<lambda>a. mem ! a) output))"

text \<open>\<^verbatim>\<open>wg.Add(partition)\<close>, the workers, \<^verbatim>\<open>wg.Wait()\<close>: a negative counter
  panics, at \<^verbatim>\<open>Add\<close> or at a surplus \<^verbatim>\<open>Done\<close>; a panic of a worker ends the
  process; with fewer workers than \<^verbatim>\<open>partition\<close> the wait never ends.

  The goroutine of the first iteration is spawned in any case, since the loop is entered
  with a list that is not empty: when it panics the process ends, whether or not the
  spawning ever ends. When the spawning does not end, the batch size is not positive: a
  positive one takes the index to the length without a wrap-around, since the list has at
  most \<open>2 ^ 62\<close> elements, as every slice of these structs has. A negative size makes
  the first goroutine panic in its slice expression, and with size \<open>0\<close> every goroutine
  is the first one over again. So the first goroutine tells whether a run whose spawning
  never ends panics.

  The counter is an integer here. \<^verbatim>\<open>sync.WaitGroup\<close> keeps 32 bits of it, so for a
  batch size that is not positive the statement at which the program panics can differ
  from the one given here; for a positive batch size the counter is the number of
  workers.\<close>

definition joinBatches ::
  "int \<Rightarrow> batchWorker \<Rightarrow> batchWorker list option \<Rightarrow> nat list \<Rightarrow> cloudwatchData list outcome"
  where
  "joinBatches partitions first spawned order =
     (if partitions < 0 then Panics NegativeWaitGroupCounter
      else (case bw_merged first of
              Inl p \<Rightarrow> Panics p
            | Inr merged \<Rightarrow>
               (case spawned of
                  None \<Rightarrow> NoReturn
                | Some ws \<Rightarrow>
                   (case firstPanic ws of
                      Some p \<Rightarrow> Panics p
                    | None \<Rightarrow>
                        if int (length ws) > partitions then Panics NegativeWaitGroupCounter
                        else if int (length ws) < partitions then NoReturn
                        else Returns (inCompletionOrder order (map appendedBy ws))))))"

text \<open>The run of a batching unit: the events of the unit's own goroutine, the workers it
  spawned (\<open>None\<close> when spawning never ends) and what the call returns.\<close>

record 'a unitRun =
  ur_events :: "event list"
  ur_spawned :: "batchWorker list option"
  ur_return :: "'a outcome"

section \<open>The Discovery unit\<close>

fun getMetricDataForQueriesLoop ::
  "Helpers \<Rightarrow> config_Job \<Rightarrow> ServiceFilter \<Rightarrow> string \<Rightarrow> string option \<Rightarrow> ExportedTagsOnMetrics \<Rightarrow>
   cloudwatchInterface \<Rightarrow> TaggedResource list \<Rightarrow> config_Metric list \<Rightarrow>
   event list \<times> cloudwatchData list" where
  "getMetricDataForQueriesLoop h discoveryJob svc region accountId tagsOnMetrics
     clientCloudwatch resources [] = ([], [])"
| "getMetricDataForQueriesLoop h discoveryJob svc region accountId tagsOnMetrics
     clientCloudwatch resources (metric # metrics) =
     (let listed = [Acquire TagGate, ListMetrics (sf_Namespace svc) (m_Name metric),
                    Release TagGate];
          rest = getMetricDataForQueriesLoop h discoveryJob svc region accountId tagsOnMetrics
                   clientCloudwatch resources metrics
      in case getFullMetricsList clientCloudwatch (sf_Namespace svc) metric of
           Inl err \<Rightarrow>
             (listed @ [LogError ''Failed to get full metric list''] @ fst rest, snd rest)
         | Inr metricsList \<Rightarrow>
             (listed @ (if length resources = 0 then [LogDebug ''No resources for metric'']
                        else []) @ fst rest,
              getFilteredMetricDatas h region accountId discoveryJob tagsOnMetrics svc
                resources metricsList metric @ snd rest))"

definition getMetricDataForQueries ::
  "Helpers \<Rightarrow> config_Job \<Rightarrow> ServiceFilter \<Rightarrow> string \<Rightarrow> string option \<Rightarrow> ExportedTagsOnMetrics \<Rightarrow>
   cloudwatchInterface \<Rightarrow> TaggedResource list \<Rightarrow> event list \<times> cloudwatchData list" where
  "getMetricDataForQueries h discoveryJob svc region accountId tagsOnMetrics clientCloudwatch
     resources =
     getMetricDataForQueriesLoop h discoveryJob svc region accountId tagsOnMetrics
       clientCloudwatch resources (j_Metrics discoveryJob)"

text \<open>The named result \<^verbatim>\<open>resources\<close> is assigned by the call of the tagging client,
  so the early returns hand back what that call returned, with \<^verbatim>\<open>cw\<close> still
  \<^verbatim>\<open>nil\<close>.\<close>

definition scrapeDiscoveryJobUsingMetricData ::
  "Helpers \<Rightarrow> config_Job \<Rightarrow> string \<Rightarrow> string option \<Rightarrow> ExportedTagsOnMetrics \<Rightarrow> TagsInterface \<Rightarrow>
   cloudwatchInterface \<Rightarrow> int \<Rightarrow> int option \<Rightarrow> nat list \<Rightarrow>
   (TaggedResource list \<times> cloudwatchData list) unitRun" where
  "scrapeDiscoveryJobUsingMetricData h job region accountId tagsOnMetrics clientTag
     clientCloudwatch metricsPerQuery roundingPeriod order =
     (case clientTag job region of (resources, err) \<Rightarrow>
      (let tagged = [Acquire TagGate, TagGet region, Release TagGate] in
       if err \<noteq> None
       then \<lparr>ur_events = tagged @ [LogError ''Couldn't describe resources''],
             ur_spawned = Some [], ur_return = Returns (resources, [])\<rparr>
       else if length resources = 0
       then \<lparr>ur_events = tagged @ [LogInfo ''No tagged resources made it through filtering''],
             ur_spawned = Some [], ur_return = Returns (resources, [])\<rparr>
       else
        (let svc = GetService h (j_Type job);
             queried = getMetricDataForQueries h job svc region accountId tagsOnMetrics
                         clientCloudwatch resources;
             getMetricDatas = snd queried;
             metricDataLength = int (length getMetricDatas)
         in if metricDataLength = 0
            then \<lparr>ur_events = tagged @ fst queried @ [LogDebug ''No metrics data found''],
                  ur_spawned = Some [], ur_return = Returns (resources, [])\<rparr>
            else
             (let maxMetricCount = metricsPerQuery;
                  len = getMetricDataInputLength h job;
                  partitions = partitionCount metricDataLength maxMetricCount;
                  spawned = spawnBatches
                              (discoveryWorker clientCloudwatch svc len job roundingPeriod
                                 getMetricDatas maxMetricCount)
                              maxMetricCount metricDataLength 0 []
              in \<lparr>ur_events = tagged @ fst queried,
                  ur_spawned = spawned,
                  ur_return =
                    (case joinBatches partitions
                            (discoveryWorker clientCloudwatch svc len job roundingPeriod
                               getMetricDatas maxMetricCount 0)
                            spawned order of
                       Returns cw \<Rightarrow> Returns (resources, cw)
                     | Panics p \<Rightarrow> Panics p
                     | NoReturn \<Rightarrow> NoReturn)\<rparr>))))"

section \<open>The CustomNamespace unit\<close>

text \<open>\<^verbatim>\<open>fmt.Sprintf("id_%d", rand.Int())\<close>. \<^verbatim>\<open>rand.Int()\<close> returns a non-negative
  number, printed in decimal. The numbers that the random source hands to one unit are a
  parameter \<open>rnd\<close>: \<open>rnd n\<close> is the value of the unit's call number \<open>n\<close>.\<close>

fun decimal :: "nat \<Rightarrow> string" where
  "decimal n =
     (if n < 10 then [char_of (48 + n)]
      else decimal (n div 10) @ [char_of (48 + n mod 10)])"

declare decimal.simps [simp del]

definition Sprintf_id :: "nat \<Rightarrow> string" where
  "Sprintf_id n = ''id_'' @ decimal n"

text \<open>The struct literal of lines 427 to 440.\<close>

definition customNamespaceQuery ::
  "config_CustomNamespace \<Rightarrow> string \<Rightarrow> string option \<Rightarrow> config_Metric \<Rightarrow> CwMetric \<Rightarrow> string \<Rightarrow>
   string \<Rightarrow> cloudwatchData" where
  "customNamespaceQuery customNamespaceJob region accountId metric cwMetric ident stats =
     \<lparr>ID = Some (c_Name customNamespaceJob),
      MetricID = Some ident,
      Metric = Some (m_Name metric),
      Namespace = Some (c_Namespace customNamespaceJob),
      Statistics = [stats],
      Points = None,
      GetMetricDataPoint = None,
      GetMetricDataTimestamps = None,
      NilToZero = m_NilToZero metric,
      AddCloudwatchTimestamp = m_AddCloudwatchTimestamp metric,
      CustomTags = c_CustomTags customNamespaceJob,
      Dimensions = cwMetric,
      Region = Some region,
      AccountId = accountId,
      Period = m_Period metric\<rparr>"

text \<open>The three nested loops of lines 406 to 443, innermost first. The number \<open>n\<close>
  counts the calls of \<^verbatim>\<open>rand.Int()\<close> made so far.\<close>

fun statisticsLoop ::
  "(nat \<Rightarrow> nat) \<Rightarrow> config_CustomNamespace \<Rightarrow> string \<Rightarrow> string option \<Rightarrow> config_Metric \<Rightarrow>
   CwMetric \<Rightarrow> nat \<Rightarrow> string list \<Rightarrow> cloudwatchData list \<times> nat" where
  "statisticsLoop rnd customNamespaceJob region accountId metric cwMetric n [] = ([], n)"
| "statisticsLoop rnd customNamespaceJob region accountId metric cwMetric n (stats # rest) =
     (let ident = Sprintf_id (rnd n);
          more = statisticsLoop rnd customNamespaceJob region accountId metric cwMetric
                   (Suc n) rest
      in (customNamespaceQuery customNamespaceJob region accountId metric cwMetric ident stats
            # fst more,
          snd more))"

fun catalogLoop ::
  "Helpers \<Rightarrow> (nat \<Rightarrow> nat) \<Rightarrow> config_CustomNamespace \<Rightarrow> string \<Rightarrow> string option \<Rightarrow>
   config_Metric \<Rightarrow> nat \<Rightarrow> CwMetric list \<Rightarrow> cloudwatchData list \<times> nat" where
  "catalogLoop h rnd customNamespaceJob region accountId metric n [] = ([], n)"
| "catalogLoop h rnd customNamespaceJob region accountId metric n (cwMetric # rest) =
     (if length (c_DimensionNameRequirements customNamespaceJob) > 0
         \<and> \<not> metricDimensionsMatchNames h cwMetric
               (c_DimensionNameRequirements customNamespaceJob)
      then catalogLoop h rnd customNamespaceJob region accountId metric n rest
      else
       (let minted = statisticsLoop rnd customNamespaceJob region accountId metric cwMetric n
                       (m_Statistics metric);
            more = catalogLoop h rnd customNamespaceJob region accountId metric (snd minted)
                     rest
        in (fst minted @ fst more, snd more)))"

fun customNamespaceMetricsLoop ::
  "Helpers \<Rightarrow> (nat \<Rightarrow> nat) \<Rightarrow> config_CustomNamespace \<Rightarrow> string \<Rightarrow> string option \<Rightarrow>
   cloudwatchInterface \<Rightarrow> nat \<Rightarrow> config_Metric list \<Rightarrow> event list \<times> cloudwatchData list \<times> nat" where
  "customNamespaceMetricsLoop h rnd customNamespaceJob region accountId clientCloudwatch n [] =
     ([], [], n)"
| "customNamespaceMetricsLoop h rnd customNamespaceJob region accountId clientCloudwatch n
     (metric # metrics) =
     (let listed = [Acquire TagGate,
                    ListMetrics (c_Namespace customNamespaceJob) (m_Name metric),
                    Release TagGate]
      in case getFullMetricsList clientCloudwatch (c_Namespace customNamespaceJob) metric of
           Inl err \<Rightarrow>
             (case customNamespaceMetricsLoop h rnd customNamespaceJob region accountId
                     clientCloudwatch n metrics of
                (evs, ds, n') \<Rightarrow>
                  (listed @ [LogError ''Failed to get full metric list''] @ evs, ds, n'))
         | Inr metricsList \<Rightarrow>
             (let minted = catalogLoop h rnd customNamespaceJob region accountId metric n
                             metricsList
              in case customNamespaceMetricsLoop h rnd customNamespaceJob region accountId
                        clientCloudwatch (snd minted) metrics of
                   (evs, ds, n') \<Rightarrow> (listed @ evs, fst minted @ ds, n')))"

definition getMetricDataForQueriesForCustomNamespace ::
  "Helpers \<Rightarrow> (nat \<Rightarrow> nat) \<Rightarrow> config_CustomNamespace \<Rightarrow> string \<Rightarrow> string option \<Rightarrow>
   cloudwatchInterface \<Rightarrow> event list \<times> cloudwatchData list" where
  "getMetricDataForQueriesForCustomNamespace h rnd customNamespaceJob region accountId
     clientCloudwatch =
     (case customNamespaceMetricsLoop h rnd customNamespaceJob region accountId
             clientCloudwatch 0 (c_Metrics customNamespaceJob) of
        (evs, ds, n) \<Rightarrow> (evs, ds))"

definition scrapeCustomNamespaceJobUsingMetricData ::
  "Helpers \<Rightarrow> (nat \<Rightarrow> nat) \<Rightarrow> config_CustomNamespace \<Rightarrow> string \<Rightarrow> string option \<Rightarrow>
   cloudwatchInterface \<Rightarrow> int \<Rightarrow> nat list \<Rightarrow> cloudwatchData list unitRun" where
  "scrapeCustomNamespaceJobUsingMetricData h rnd customNamespaceJob region accountId
     clientCloudwatch metricsPerQuery order =
     (let queried = getMetricDataForQueriesForCustomNamespace h rnd customNamespaceJob region
                      accountId clientCloudwatch;
          getMetricDatas = snd queried;
          metricDataLength = int (length getMetricDatas)
      in if metricDataLength = 0
         then \<lparr>ur_events = fst queried @ [LogDebug ''No metrics data found''],
               ur_spawned = Some [], ur_return = Returns []\<rparr>
         else
          (let maxMetricCount = metricsPerQuery;
               partitions = partitionCount metricDataLength maxMetricCount;
               spawned = spawnBatches
                           (customNamespaceWorker clientCloudwatch customNamespaceJob
                              getMetricDatas maxMetricCount)
                           maxMetricCount metricDataLength 0 []
           in \<lparr>ur_events = fst queried,
               ur_spawned = spawned,
               ur_return = joinBatches partitions
                             (customNamespaceWorker clientCloudwatch customNamespaceJob
                                getMetricDatas maxMetricCount 0)
                             spawned order\<rparr>))"

section \<open>The Static unit\<close>

record staticWorker =
  sw_events :: "event list"
  sw_appended :: "cloudwatchData list"

text \<open>The goroutine of lines 160 to 196, for one metric.\<close>

definition scrapeStaticWorker ::
  "Helpers \<Rightarrow> config_Static \<Rightarrow> string \<Rightarrow> string option \<Rightarrow> cloudwatchInterface \<Rightarrow> config_Metric \<Rightarrow>
   staticWorker" where
  "scrapeStaticWorker h resource region accountId clientCloudwatch metric =
     (let ident = s_Name resource;
          data = \<lparr>ID = Some ident,
                  MetricID = None,
                  Metric = Some (m_Name metric),
                  Namespace = Some (s_Namespace resource),
                  Statistics = m_Statistics metric,
                  Points = None,
                  GetMetricDataPoint = None,
                  GetMetricDataTimestamps = None,
                  NilToZero = m_NilToZero metric,
                  AddCloudwatchTimestamp = m_AddCloudwatchTimestamp metric,
                  CustomTags = s_CustomTags resource,
                  Dimensions = createStaticDimensions h (s_Dimensions resource),
                  Region = Some region,
                  AccountId = accountId,
                  Period = 0\<rparr>;
          req = createGetMetricStatisticsInput (Dimensions data) (s_Namespace resource) metric;
          data = data\<lparr>Points := get clientCloudwatch req\<rparr>
      in \<lparr>sw_events = [Acquire DataGate, GetMetricStatistics req, Release DataGate],
          sw_appended = (if Points data \<noteq> None then [data] else [])\<rparr>)"

record staticRun =
  sr_workers :: "staticWorker list"
  sr_return :: "cloudwatchData list"

definition scrapeStaticJob ::
  "Helpers \<Rightarrow> config_Static \<Rightarrow> string \<Rightarrow> string option \<Rightarrow> cloudwatchInterface \<Rightarrow> nat list \<Rightarrow>
   staticRun" where
  "scrapeStaticJob h resource region accountId clientCloudwatch order =
     (let workers = map (scrapeStaticWorker h resource region accountId clientCloudwatch)
                      (s_Metrics resource)
      in \<lparr>sr_workers = workers,
          sr_return = inCompletionOrder order (map sw_appended workers)\<rparr>)"

section \<open>The orchestrator\<close>

text \<open>Lines 47 to 51, repeated for every job kind: the triple is abandoned when the
  identity call fails or its result has no account. A \<^verbatim>\<open>nil\<close> result without an
  error would be dereferenced.\<close>

datatype identity = Abandon | Crash | Account string

definition callerIdentity :: "SessionCache \<Rightarrow> Role \<Rightarrow> identity" where
  "callerIdentity cache role =
     (case GetSTS cache role of (result, err) \<Rightarrow>
        if err \<noteq> None then Abandon
        else (case result of
                None \<Rightarrow> Crash
              | Some account \<Rightarrow> (case account of None \<Rightarrow> Abandon | Some a \<Rightarrow> Account a)))"

text \<open>The run of the goroutine of one triple: its own events, the events of the workers
  it spawned, and what it appends to the two aggregates.\<close>

record tripleRun =
  t_events :: "event list"
  t_workers :: "event list list"
  t_outcome :: "(TaggedResource list \<times> cloudwatchData list) outcome"

definition abandoned :: "Role \<Rightarrow> identity \<Rightarrow> tripleRun" where
  "abandoned role ident =
     (if ident = Crash
      then \<lparr>t_events = [GetCallerIdentity role], t_workers = [],
            t_outcome = Panics NilPointerDereference\<rparr>
      else \<lparr>t_events = [GetCallerIdentity role, LogError ''Couldn't get account Id''],
            t_workers = [], t_outcome = Returns ([], [])\<rparr>)"

definition workerEvents :: "batchWorker list option \<Rightarrow> event list list" where
  "workerEvents spawned = (case spawned of None \<Rightarrow> [] | Some ws \<Rightarrow> map bw_events ws)"

definition discoveryTriple ::
  "Helpers \<Rightarrow> ScrapeConf \<Rightarrow> int \<Rightarrow> SessionCache \<Rightarrow> nat list \<Rightarrow> config_Job \<Rightarrow> string \<Rightarrow> Role \<Rightarrow>
   tripleRun" where
  "discoveryTriple h cfg metricsPerQuery cache order discoveryJob region role =
     (case callerIdentity cache role of
        Account a \<Rightarrow>
          (let run = scrapeDiscoveryJobUsingMetricData h discoveryJob region (Some a)
                       (Discovery_ExportedTagsOnMetrics cfg) (GetTagging cache region role)
                       (GetCloudwatch cache region role) metricsPerQuery
                       (j_RoundingPeriod discoveryJob) order
           in \<lparr>t_events = GetCallerIdentity role # ur_events run,
               t_workers = workerEvents (ur_spawned run),
               t_outcome =
                 (case ur_return run of
                    Returns (resources, metrics) \<Rightarrow>
                      if length resources \<noteq> 0 \<and> length metrics \<noteq> 0
                      then Returns (resources, metrics) else Returns ([], [])
                  | Panics p \<Rightarrow> Panics p
                  | NoReturn \<Rightarrow> NoReturn)\<rparr>)
      | ident \<Rightarrow> abandoned role ident)"

definition staticTriple ::
  "Helpers \<Rightarrow> SessionCache \<Rightarrow> nat list \<Rightarrow> config_Static \<Rightarrow> string \<Rightarrow> Role \<Rightarrow> tripleRun" where
  "staticTriple h cache order staticJob region role =
     (case callerIdentity cache role of
        Account a \<Rightarrow>
          (let run = scrapeStaticJob h staticJob region (Some a)
                       (GetCloudwatch cache region role) order
           in \<lparr>t_events = [GetCallerIdentity role],
               t_workers = map sw_events (sr_workers run),
               t_outcome = Returns ([], sr_return run)\<rparr>)
      | ident \<Rightarrow> abandoned role ident)"

definition customNamespaceTriple ::
  "Helpers \<Rightarrow> int \<Rightarrow> SessionCache \<Rightarrow> nat list \<Rightarrow> (nat \<Rightarrow> nat) \<Rightarrow> config_CustomNamespace \<Rightarrow> string \<Rightarrow>
   Role \<Rightarrow> tripleRun" where
  "customNamespaceTriple h metricsPerQuery cache order rnd customNamespaceJob region role =
     (case callerIdentity cache role of
        Account a \<Rightarrow>
          (let run = scrapeCustomNamespaceJobUsingMetricData h rnd customNamespaceJob region
                       (Some a) (GetCloudwatch cache region role) metricsPerQuery order
           in \<lparr>t_events = GetCallerIdentity role # ur_events run,
               t_workers = workerEvents (ur_spawned run),
               t_outcome =
                 (case ur_return run of
                    Returns metrics \<Rightarrow> Returns ([], metrics)
                  | Panics p \<Rightarrow> Panics p
                  | NoReturn \<Rightarrow> NoReturn)\<rparr>)
      | ident \<Rightarrow> abandoned role ident)"

text \<open>The triples in the order in which the three loop nests of \<^verbatim>\<open>ScrapeAwsData\<close>
  spawn their goroutines.\<close>

datatype triple =
    DiscoveryTriple config_Job string Role
  | StaticTriple config_Static string Role
  | CustomNamespaceTriple config_CustomNamespace string Role

definition spawnTriples :: "ScrapeConf \<Rightarrow> triple list" where
  "spawnTriples cfg =
     concat (map (\<lambda>discoveryJob.
        concat (map (\<lambda>role. map (\<lambda>region. DiscoveryTriple discoveryJob region role)
                               (j_Regions discoveryJob))
                    (j_Roles discoveryJob)))
        (Discovery_Jobs cfg))
     @ concat (map (\<lambda>staticJob.
        concat (map (\<lambda>role. map (\<lambda>region. StaticTriple staticJob region role)
                               (s_Regions staticJob))
                    (s_Roles staticJob)))
        (Static cfg))
     @ concat (map (\<lambda>customNamespaceJob.
        concat (map (\<lambda>role. map (\<lambda>region. CustomNamespaceTriple customNamespaceJob region role)
                               (c_Regions customNamespaceJob))
                    (c_Roles customNamespaceJob)))
        (CustomNamespace cfg))"

text \<open>What the scheduler and the random source decide: the order in which the triples
  complete, for every triple the order in which its workers complete, and the numbers its
  calls of \<^verbatim>\<open>rand.Int()\<close> return.\<close>

record Schedule =
  tripleOrder :: "nat list"
  workerOrder :: "nat \<Rightarrow> nat list"
  randInt :: "nat \<Rightarrow> nat \<Rightarrow> nat"

fun runTriple ::
  "Helpers \<Rightarrow> ScrapeConf \<Rightarrow> int \<Rightarrow> SessionCache \<Rightarrow> nat list \<Rightarrow> (nat \<Rightarrow> nat) \<Rightarrow> triple \<Rightarrow> tripleRun" where
  "runTriple h cfg metricsPerQuery cache order rnd (DiscoveryTriple discoveryJob region role) =
     discoveryTriple h cfg metricsPerQuery cache order discoveryJob region role"
| "runTriple h cfg metricsPerQuery cache order rnd (StaticTriple staticJob region role) =
     staticTriple h cache order staticJob region role"
| "runTriple h cfg metricsPerQuery cache order rnd
     (CustomNamespaceTriple customNamespaceJob region role) =
     customNamespaceTriple h metricsPerQuery cache order rnd customNamespaceJob region role"

fun runTriples ::
  "Helpers \<Rightarrow> ScrapeConf \<Rightarrow> int \<Rightarrow> SessionCache \<Rightarrow> Schedule \<Rightarrow> nat \<Rightarrow> triple list \<Rightarrow>
   tripleRun list" where
  "runTriples h cfg metricsPerQuery cache sched k [] = []"
| "runTriples h cfg metricsPerQuery cache sched k (t # ts) =
     runTriple h cfg metricsPerQuery cache (workerOrder sched k) (randInt sched k) t
       # runTriples h cfg metricsPerQuery cache sched (Suc k) ts"

text \<open>What a triple appends to \<^verbatim>\<open>awsInfoData\<close> and to \<^verbatim>\<open>cwData\<close>.\<close>

definition contribution :: "tripleRun \<Rightarrow> TaggedResource list \<times> cloudwatchData list" where
  "contribution run = (case t_outcome run of Returns c \<Rightarrow> c | Panics p \<Rightarrow> ([], []) | NoReturn \<Rightarrow> ([], []))"

fun firstFailure :: "tripleRun list \<Rightarrow> panic option option" where
  "firstFailure [] = None"
| "firstFailure (run # runs) =
     (case t_outcome run of
        Panics p \<Rightarrow> Some (Some p)
      | NoReturn \<Rightarrow> (case firstFailure runs of Some (Some p) \<Rightarrow> Some (Some p) | other \<Rightarrow> Some None)
      | Returns c \<Rightarrow> firstFailure runs)"

record scrapeRun =
  sa_events :: "event list"
  sa_triples :: "tripleRun list"
  sa_return :: "(TaggedResource list \<times> cloudwatchData list) outcome"

definition aggregate ::
  "nat list \<Rightarrow> tripleRun list \<Rightarrow> (TaggedResource list \<times> cloudwatchData list) outcome" where
  "aggregate order runs =
     (case firstFailure runs of
        Some (Some p) \<Rightarrow> Panics p
      | Some None \<Rightarrow> NoReturn
      | None \<Rightarrow> Returns (inCompletionOrder order (map (fst \<circ> contribution) runs),
                         inCompletionOrder order (map (snd \<circ> contribution) runs)))"

definition ScrapeAwsData ::
  "Helpers \<Rightarrow> ScrapeConf \<Rightarrow> int \<Rightarrow> SessionCache \<Rightarrow> Schedule \<Rightarrow> scrapeRun" where
  "ScrapeAwsData h cfg metricsPerQuery cache sched =
     (let runs = runTriples h cfg metricsPerQuery cache sched 0 (spawnTriples cfg);
          result = aggregate (tripleOrder sched) runs
      in \<lparr>sa_events = CacheRefresh # (case result of Returns c \<Rightarrow> [CacheClear] | Panics p \<Rightarrow> []
                                       | NoReturn \<Rightarrow> []),
          sa_triples = runs,
          sa_return = result\<rparr>)"

section \<open>Interleavings of goroutines\<close>

text \<open>The goroutines of a unit run interleaved. A thread is the sequence of events that a
  goroutine still has to perform, with a flag that tells whether the call at its head has
  been issued and has not returned yet. A gate is a buffered channel: \<open>held g\<close> is the
  number of items in it and \<open>cap g\<close> its capacity.\<close>

type_synonym thread = "event list \<times> bool"

type_synonym gates = "gate \<Rightarrow> nat"

type_synonym interleaving = "thread list \<times> gates"

definition isCall :: "event \<Rightarrow> bool" where
  "isCall ev =
     (case ev of
        GetCallerIdentity role \<Rightarrow> True
      | TagGet region \<Rightarrow> True
      | ListMetrics namespace name \<Rightarrow> True
      | GetMetricData req \<Rightarrow> True
      | GetMetricStatistics req \<Rightarrow> True
      | _ \<Rightarrow> False)"

definition isDataFetch :: "event \<Rightarrow> bool" where
  "isDataFetch ev =
     (case ev of GetMetricData req \<Rightarrow> True | GetMetricStatistics req \<Rightarrow> True | _ \<Rightarrow> False)"

text \<open>One step of a thread. A send to a full gate and a receive from an empty one block
  (\<open>None\<close>), as does a thread that has ended; a call is issued in one step and returns
  in another; every other event takes one step.\<close>

fun stepEvent :: "gates \<Rightarrow> gates \<Rightarrow> thread \<Rightarrow> (thread \<times> gates) option" where
  "stepEvent cap held ([], b) = None"
| "stepEvent cap held (Acquire g # rest, b) =
     (if held g < cap g then Some ((rest, False), held(g := held g + 1)) else None)"
| "stepEvent cap held (Release g # rest, b) =
     (if 0 < held g then Some ((rest, False), held(g := held g - 1)) else None)"
| "stepEvent cap held (ev # rest, b) =
     (if isCall ev \<and> \<not> b then Some ((ev # rest, True), held)
      else Some ((rest, False), held))"

text \<open>The scheduler lets thread \<open>k\<close> make a step; a schedule is a list of such
  choices.\<close>

definition stepThread :: "gates \<Rightarrow> nat \<Rightarrow> interleaving \<Rightarrow> interleaving option" where
  "stepThread cap k s =
     (case s of (ts, held) \<Rightarrow>
        if k < length ts
        then (case stepEvent cap held (ts ! k) of
                None \<Rightarrow> None
              | Some (t, held') \<Rightarrow> Some (ts[k := t], held'))
        else None)"

fun runSchedule :: "gates \<Rightarrow> nat list \<Rightarrow> interleaving \<Rightarrow> interleaving option" where
  "runSchedule cap [] s = Some s"
| "runSchedule cap (k # ks) s =
     (case stepThread cap k s of None \<Rightarrow> None | Some s' \<Rightarrow> runSchedule cap ks s')"

definition startThreads :: "event list list \<Rightarrow> interleaving" where
  "startThreads programs = (map (\<lambda>evs. (evs, False)) programs, \<lambda>g. 0)"

text \<open>The data-fetch calls in flight: issued and not returned.\<close>

definition fetching :: "thread \<Rightarrow> bool" where
  "fetching t = (snd t \<and> (case fst t of [] \<Rightarrow> False | ev # rest \<Rightarrow> isDataFetch ev))"

definition inFlight :: "interleaving \<Rightarrow> nat" where
  "inFlight s = length (filter fetching (fst s))"

section \<open>Notions used in the statements\<close>

text \<open>A well-formed response, as the interface of the batched data fetch promises it:
  every result carries an id, and a result with values carries timestamps.\<close>

definition wellFormed :: "MetricDataResult list \<Rightarrow> bool" where
  "wellFormed results =
     list_all (\<lambda>r. r_Id r \<noteq> None \<and> (r_Values r = [] \<or> r_Timestamps r \<noteq> [])) results"

text \<open>The object \<open>x\<close> is the copy that the result \<open>r\<close> leaves behind in a worker with
  the slice \<open>input\<close>: a copy of the first query of the slice that carries the id of
  \<open>r\<close>, as it is when \<open>r\<close> has no values and with the slot set to the first value and
  the first timestamp of \<open>r\<close> otherwise.\<close>

definition copyFor :: "cloudwatchData list \<Rightarrow> cloudwatchData \<Rightarrow> MetricDataResult \<Rightarrow> bool" where
  "copyFor input x r =
     (\<exists>pre q post. input = pre @ q # post \<and> MetricID q = r_Id r
        \<and> r_Id r \<notin> MetricID ` set pre
        \<and> (r_Values r = [] \<longrightarrow> x = q)
        \<and> (r_Values r \<noteq> [] \<longrightarrow>
              x = q\<lparr>GetMetricDataPoint := r_Values r ! 0,
                     GetMetricDataTimestamps := r_Timestamps r ! 0\<rparr>))"

text \<open>The objects \<open>xs\<close> are what a batch with the slice \<open>input\<close> contributes when the
  data fetch answers \<open>data\<close>: nothing for a \<^verbatim>\<open>nil\<close> response, and otherwise, in the
  order of the response, one copy for every result whose id a query of the slice
  carries.\<close>

definition contributes ::
  "cloudwatchData list \<Rightarrow> MetricDataResult list option \<Rightarrow> cloudwatchData list \<Rightarrow> bool" where
  "contributes input data xs =
     (case data of
        None \<Rightarrow> xs = []
      | Some results \<Rightarrow>
          list_all2 (\<lambda>x r. copyFor input x r) xs
            (filter (\<lambda>r. r_Id r \<in> MetricID ` set input) results))"

text \<open>A response that is \<^verbatim>\<open>nil\<close> or well formed.\<close>

definition answered :: "MetricDataResult list option \<Rightarrow> bool" where
  "answered data = (case data of None \<Rightarrow> True | Some results \<Rightarrow> wellFormed results)"


text \<open>The workers \<open>ws\<close> partition the queries \<open>qs\<close> into batches of at most \<open>M\<close>:
  there are \<open>\<lceil>N / M\<rceil>\<close> of them, worker \<open>k\<close> is given the window of width \<open>M\<close> at
  offset \<open>k * M\<close>, the windows put together are \<open>qs\<close>, and none is empty.\<close>

definition isPartition :: "int \<Rightarrow> cloudwatchData list \<Rightarrow> batchWorker list \<Rightarrow> bool" where
  "isPartition M qs ws =
     (int (length ws) = \<lceil>real (length qs) / real_of_int M\<rceil>
      \<and> map bw_input ws = map (\<lambda>k. Inr (take (nat M) (drop (k * nat M) qs))) [0..<length ws]
      \<and> concat (map (\<lambda>k. take (nat M) (drop (k * nat M) qs)) [0..<length ws]) = qs
      \<and> list_all (\<lambda>k. take (nat M) (drop (k * nat M) qs) \<noteq> []) [0..<length ws])"

text \<open>The number of iterations that the spawning loop still makes at index \<open>i\<close>.\<close>

definition batchCount :: "int \<Rightarrow> int \<Rightarrow> int \<Rightarrow> nat" where
  "batchCount M n i = nat (- ((i - n) div M))"

text \<open>The role under which a triple resolves its account.\<close>

fun tripleRole :: "triple \<Rightarrow> Role" where
  "tripleRole (DiscoveryTriple discoveryJob region role) = role"
| "tripleRole (StaticTriple staticJob region role) = role"
| "tripleRole (CustomNamespaceTriple customNamespaceJob region role) = role"

text \<open>The queries \<open>ds\<close> were minted with the calls \<open>n\<close> up to \<open>n'\<close> of the random
  source, one call per query, in order.\<close>

definition minted :: "(nat \<Rightarrow> nat) \<Rightarrow> nat \<Rightarrow> cloudwatchData list \<Rightarrow> nat \<Rightarrow> bool" where
  "minted rnd n ds n' =
     (n' = n + length ds \<and> map MetricID ds = map (\<lambda>k. Some (Sprintf_id (rnd k))) [n..<n'])"

text \<open>A goroutine is gated when it sends to the data gate first, receives from it last
  and touches no gate in between. Such a thread is idle before the send and after the
  receive and holds the gate in between. The invariant: every thread is idle or holds the
  gate, and the gate holds one item per holding thread.\<close>

definition noGates :: "event list \<Rightarrow> bool" where
  "noGates body = list_all (\<lambda>ev. case ev of Acquire g \<Rightarrow> False | Release g \<Rightarrow> False | _ \<Rightarrow> True) body"

definition gated :: "event list \<Rightarrow> bool" where
  "gated evs = (\<exists>body. noGates body \<and> evs = Acquire DataGate # body @ [Release DataGate])"

definition idle :: "thread \<Rightarrow> bool" where
  "idle t = (t = ([], False) \<or> (gated (fst t) \<and> \<not> snd t))"

definition holding :: "thread \<Rightarrow> bool" where
  "holding t = (\<exists>body. noGates body \<and> fst t = body @ [Release DataGate])"

definition gateInvariant :: "gates \<Rightarrow> interleaving \<Rightarrow> bool" where
  "gateInvariant cap s =
     ((\<forall>t\<in>set (fst s). idle t \<or> holding t)
      \<and> snd s DataGate = length (filter holding (fst s))
      \<and> snd s DataGate \<le> cap DataGate)"

section \<open>Example inputs\<close>

text \<open>A small configuration, collaborators that answer every call, and a session cache in
  which one role is denied its identity. The witnesses and counterexamples below are
  evaluated on them.\<close>

definition exQuery :: "string \<Rightarrow> cloudwatchData" where
  "exQuery ident =
     \<lparr>ID = Some ''job'', MetricID = Some ident, Metric = Some ''Latency'',
      Namespace = Some ''AWS/ELB'', Statistics = [''Sum''], Points = None,
      GetMetricDataPoint = None, GetMetricDataTimestamps = None, NilToZero = None,
      AddCloudwatchTimestamp = None, CustomTags = [], Dimensions = [],
      Region = Some ''eu-west-1'', AccountId = Some ''123'', Period = 60\<rparr>"

definition exResult :: "string \<Rightarrow> real option list \<Rightarrow> int option list \<Rightarrow> MetricDataResult" where
  "exResult ident vs ts = \<lparr>r_Id = Some ident, r_Values = vs, r_Timestamps = ts\<rparr>"

definition exSlot :: "cloudwatchData \<Rightarrow> real \<Rightarrow> int \<Rightarrow> cloudwatchData" where
  "exSlot q v t = q\<lparr>GetMetricDataPoint := Some v, GetMetricDataTimestamps := Some t\<rparr>"

definition exMetric :: "string \<Rightarrow> config_Metric" where
  "exMetric name =
     \<lparr>m_Name = name, m_Statistics = [''Sum'', ''Average''], m_Period = 60, m_Length = 0,
      m_Delay = 0, m_NilToZero = None, m_AddCloudwatchTimestamp = None\<rparr>"

definition exHelpers :: Helpers where
  "exHelpers =
     \<lparr>DefaultLengthSeconds = 300,
      GetService = (\<lambda>t. \<lparr>sf_Namespace = t, sf_DimensionRegexps = []\<rparr>),
      getFilteredMetricDatas =
        (\<lambda>region accountId job tags svc resources cwMetrics metric.
           map (\<lambda>stat. exQuery (m_Name metric @ stat)) (m_Statistics metric)),
      metricDimensionsMatchNames = (\<lambda>cwMetric names. map fst cwMetric = names),
      createStaticDimensions = (\<lambda>ds. ds)\<rparr>"

definition exCloudwatch :: cloudwatchInterface where
  "exCloudwatch =
     \<lparr>getMetricData =
        (\<lambda>req. Some (map (\<lambda>q. \<lparr>r_Id = MetricID q, r_Values = [Some 1],
                                   r_Timestamps = [Some 10]\<rparr>) (gmd_Queries req))),
      get = (\<lambda>req. Some [(10, 1)]),
      getFullMetricsList = (\<lambda>namespace metric. Inr [[(''LoadBalancer'', ''lb'')]])\<rparr>"

definition exResource :: TaggedResource where
  "exResource = \<lparr>tr_ARN = ''arn:lb'', tr_Tags = []\<rparr>"

definition exTagging :: TagsInterface where
  "exTagging job region = ([exResource], None)"

definition exRole :: Role where
  "exRole = \<lparr>RoleArn = ''arn:role'', ExternalID = []\<rparr>"

definition exCustomNamespace :: config_CustomNamespace where
  "exCustomNamespace =
     \<lparr>c_Name = ''custom'', c_Namespace = ''MyApp'', c_Roles = [exRole],
      c_Regions = [''eu-west-1''], c_Metrics = [exMetric ''Latency'', exMetric ''Errors''],
      c_Length = 300, c_Delay = 0, c_RoundingPeriod = None, c_CustomTags = [],
      c_DimensionNameRequirements = []\<rparr>"

definition exJob :: "int \<Rightarrow> config_Job" where
  "exJob len =
     \<lparr>j_Type = ''AWS/ELB'', j_Roles = [exRole], j_Regions = [''eu-west-1''],
      j_Metrics = [exMetric ''Latency'', exMetric ''Errors''], j_Length = len, j_Delay = 0,
      j_RoundingPeriod = None, j_CustomTags = [], j_DimensionNameRequirements = []\<rparr>"

definition exDiscoveryQueries :: "cloudwatchData list" where
  "exDiscoveryQueries =
     [exQuery ''LatencySum'', exQuery ''LatencyAverage'', exQuery ''ErrorsSum'',
      exQuery ''ErrorsAverage'']"

definition exDenied :: Role where
  "exDenied = \<lparr>RoleArn = ''arn:denied'', ExternalID = []\<rparr>"

definition exIdentity :: "Role \<Rightarrow> string option option \<times> string option" where
  "exIdentity role =
     (if role = exDenied then (None, Some ''AccessDenied'') else (Some (Some ''123''), None))"

definition exCache :: "TagsInterface \<Rightarrow> SessionCache" where
  "exCache tagging =
     \<lparr>GetSTS = exIdentity,
      GetCloudwatch = (\<lambda>region role. exCloudwatch),
      GetTagging = (\<lambda>region role. tagging)\<rparr>"

definition exStatic :: config_Static where
  "exStatic =
     \<lparr>s_Name = ''static'', s_Namespace = ''AWS/SQS'', s_Roles = [exDenied],
      s_Regions = [''eu-west-1''], s_Metrics = [exMetric ''Depth'', exMetric ''Age''],
      s_CustomTags = [], s_Dimensions = [(''QueueName'', ''q'')]\<rparr>"

definition exConf :: ScrapeConf where
  "exConf =
     \<lparr>Discovery_Jobs = [exJob 0], Discovery_ExportedTagsOnMetrics = [],
      Static = [exStatic], CustomNamespace = [exCustomNamespace]\<rparr>"

definition exSchedule :: Schedule where
  "exSchedule =
     \<lparr>tripleOrder = [2, 0, 1], workerOrder = (\<lambda>k. [1, 0]), randInt = (\<lambda>k n. n)\<rparr>"

text \<open>A client that answers every batched request with the same results.\<close>

definition exAnswer :: "MetricDataResult list \<Rightarrow> cloudwatchInterface" where
  "exAnswer results =
     \<lparr>getMetricData = (\<lambda>req. Some results),
      get = (\<lambda>req. None),
      getFullMetricsList = (\<lambda>namespace metric. Inr [])\<rparr>"



text \<open>The queries that the CustomNamespace unit makes at the example configuration.\<close>

definition exCustomQuery :: "string \<Rightarrow> string \<Rightarrow> string \<Rightarrow> cloudwatchData" where
  "exCustomQuery name ident stat =
     customNamespaceQuery exCustomNamespace ''eu-west-1'' (Some ''123'') (exMetric name)
       [(''LoadBalancer'', ''lb'')] ident stat"

section \<open>Properties of the merge\<close>

lemma find_Inr: "findGetMetricDataById qs v = Inr q \<Longrightarrow> q \<in> set qs \<and> MetricID q = Some v"
  by (induction qs) (auto split: if_splits)

lemma find_Inl: "findGetMetricDataById qs v = Inl e \<Longrightarrow> Some v \<notin> MetricID ` set qs"
  by (induction qs) (auto split: if_splits)

lemma mergeStep_cases:
  assumes "mergeStep input (mem, out) r = Inr st"
  obtains v where "r_Id r = Some v" "Some v \<notin> MetricID ` set (map (\<lambda>a. mem ! a) input)" "st = (mem, out)"
  | v q c where "r_Id r = Some v" "findGetMetricDataById (map (\<lambda>a. mem ! a) input) v = Inr q"
      "setResult q r = Inr c" "st = (mem @ [c], out @ [length mem])"
  using assms unfolding mergeStep_def
  by (auto split: option.splits sum.splits dest: find_Inl)

lemma map_nth_append_below:
  "\<forall>a\<in>set input. a < length mem \<Longrightarrow> map (\<lambda>a. (mem @ cs) ! a) input = map (\<lambda>a. mem ! a) input"
  by (simp add: nth_append)

lemma mergeResults_total:
  "wellFormed rs \<Longrightarrow> \<exists>st'. mergeResults input st rs = Inr st'"
proof (induction rs arbitrary: st)
  case Nil
  then show ?case by simp
next
  case (Cons r rs)
  obtain mem out where st: "st = (mem, out)" by (cases st)
  from Cons.prems have r: "r_Id r \<noteq> None" "r_Values r = [] \<or> r_Timestamps r \<noteq> []"
    and rs: "wellFormed rs" by (auto simp: wellFormed_def)
  from r have "\<exists>st1. mergeStep input st r = Inr st1"
    unfolding mergeStep_def setResult_def st
    by (auto split: option.splits sum.splits)
  then obtain st1 where "mergeStep input st r = Inr st1" ..
  with Cons.IH[OF rs, of st1] show ?case by simp
qed

lemma nth_appended_range:
  "map (\<lambda>a. (xs @ ys) ! a) [length xs..<length xs + length ys] = ys"
  by (rule nth_equalityI) (simp_all add: nth_append)

lemma mergeResponse_total:
  "wellFormed results \<Longrightarrow> \<exists>mem output. mergeResponse input (Some results) = Inr (mem, output)"
  using mergeResults_total[of results "[0..<length input]" "(input, [])"]
  by (auto simp: mergeResponse_def)

lemma setResult_cases:
  assumes "setResult q r = Inr c"
  shows "(r_Values r = [] \<longrightarrow> c = q)
       \<and> (r_Values r \<noteq> [] \<longrightarrow> c = q\<lparr>GetMetricDataPoint := r_Values r ! 0,
                                      GetMetricDataTimestamps := r_Timestamps r ! 0\<rparr>)"
  using assms by (auto simp: setResult_def split: if_splits)

lemma find_first:
  "findGetMetricDataById qs v = Inr q \<Longrightarrow>
   \<exists>pre post. qs = pre @ q # post \<and> MetricID q = Some v \<and> Some v \<notin> MetricID ` set pre"
proof (induction qs)
  case Nil
  then show ?case by simp
next
  case (Cons g gs)
  show ?case
  proof (cases "MetricID g = Some v")
    case True
    with Cons.prems have "q = g" by simp
    with True have "g # gs = [] @ q # gs \<and> MetricID q = Some v \<and> Some v \<notin> MetricID ` set []"
      by simp
    then show ?thesis by blast
  next
    case False
    with Cons.prems have "findGetMetricDataById gs v = Inr q" by simp
    from Cons.IH[OF this] obtain pre post where
      p: "gs = pre @ q # post" "MetricID q = Some v" "Some v \<notin> MetricID ` set pre" by blast
    with False have "g # gs = (g # pre) @ q # post \<and> MetricID q = Some v
        \<and> Some v \<notin> MetricID ` set (g # pre)"
      by auto
    then show ?thesis by blast
  qed
qed

lemma copyFor_found:
  assumes "r_Id r = Some v" "findGetMetricDataById qs v = Inr q" "setResult q r = Inr c"
  shows "copyFor qs c r"
proof -
  from find_first[OF assms(2)] obtain pre post where
    p: "qs = pre @ q # post" "MetricID q = Some v" "Some v \<notin> MetricID ` set pre" by blast
  from setResult_cases[OF assms(3)] p assms(1) show ?thesis
    unfolding copyFor_def by auto
qed

lemma mergeResults_exact:
  assumes "mergeResults input (mem, out) rs = Inr (mem', out')"
    and "\<forall>a\<in>set input. a < length mem"
  shows "\<exists>copies. mem' = mem @ copies
      \<and> out' = out @ [length mem..<length mem + length copies]
      \<and> list_all2 (copyFor (map (\<lambda>a. mem ! a) input)) copies
           (filter (\<lambda>r. r_Id r \<in> MetricID ` set (map (\<lambda>a. mem ! a) input)) rs)"
  using assms
proof (induction rs arbitrary: mem out)
  case Nil
  then show ?case by simp
next
  case (Cons r rs)
  let ?qs = "map (\<lambda>a. mem ! a) input"
  from Cons.prems(1) obtain st where step: "mergeStep input (mem, out) r = Inr st"
    and rest: "mergeResults input st rs = Inr (mem', out')"
    by (auto split: sum.splits)
  from step show ?case
  proof (cases rule: mergeStep_cases)
    case (1 v)
    with rest have "mergeResults input (mem, out) rs = Inr (mem', out')" by simp
    from Cons.IH[OF this Cons.prems(2)] obtain copies where
      c: "mem' = mem @ copies" "out' = out @ [length mem..<length mem + length copies]"
         "list_all2 (copyFor ?qs) copies (filter (\<lambda>r. r_Id r \<in> MetricID ` set ?qs) rs)"
      by blast
    from 1(1,2) have "filter (\<lambda>r. r_Id r \<in> MetricID ` set ?qs) (r # rs)
        = filter (\<lambda>r. r_Id r \<in> MetricID ` set ?qs) rs" by simp
    with c show ?thesis by auto
  next
    case (2 v q c)
    have bound: "\<forall>a\<in>set input. a < length (mem @ [c])"
      using Cons.prems(2) by auto
    have same: "map (\<lambda>a. (mem @ [c]) ! a) input = ?qs"
      using Cons.prems(2) by (rule map_nth_append_below)
    from rest 2 have "mergeResults input (mem @ [c], out @ [length mem]) rs = Inr (mem', out')"
      by simp
    from Cons.IH[OF this bound] obtain copies where
      c: "mem' = (mem @ [c]) @ copies"
         "out' = (out @ [length mem]) @ [length (mem @ [c])..<length (mem @ [c]) + length copies]"
         "list_all2 (copyFor ?qs) copies (filter (\<lambda>r. r_Id r \<in> MetricID ` set ?qs) rs)"
      unfolding same by blast
    have inq: "r_Id r \<in> MetricID ` set ?qs"
      using find_Inr[OF 2(2)] 2(1) by (metis image_eqI)
    have g1: "mem' = mem @ (c # copies)" using c(1) by simp
    have "[length mem..<length mem + length (c # copies)]
            = length mem # [Suc (length mem)..<Suc (length mem) + length copies]"
      using upt_conv_Cons[of "length mem" "length mem + Suc (length copies)"] by simp
    then have g2: "out' = out @ [length mem..<length mem + length (c # copies)]"
      using c(2) by simp
    have "copyFor ?qs c r" using 2(1,2,3) by (rule copyFor_found)
    with c(3) inq have g3: "list_all2 (copyFor ?qs) (c # copies)
        (filter (\<lambda>r. r_Id r \<in> MetricID ` set ?qs) (r # rs))" by simp
    show ?thesis
      by (intro exI[of _ "c # copies"] conjI) (fact g1 g2 g3)+
  qed
qed

lemma mergeResponse_partial:
  assumes "mergeResponse input data = Inr (mem, out)"
  shows "\<exists>copies. mem = input @ copies
      \<and> out = [length input..<length input + length copies]
      \<and> contributes input data copies"
proof (cases data)
  case None
  with assms show ?thesis by (auto simp: mergeResponse_def contributes_def)
next
  case (Some results)
  with assms have m: "mergeResults [0..<length input] (input, []) results = Inr (mem, out)"
    by (simp add: mergeResponse_def)
  have b: "\<forall>a\<in>set [0..<length input]. a < length input" by simp
  from mergeResults_exact[OF m b] obtain copies where
    "mem = input @ copies" "out = [length input..<length input + length copies]"
    "list_all2 (copyFor input) copies (filter (\<lambda>r. r_Id r \<in> MetricID ` set input) results)"
    by (auto simp: map_nth)
  with Some show ?thesis
    by (auto simp: contributes_def)
qed

lemma mergeResponse_exact:
  assumes "answered data"
  shows "\<exists>copies. mergeResponse input data
           = Inr (input @ copies, [length input..<length input + length copies])
      \<and> contributes input data copies"
proof (cases data)
  case None
  then show ?thesis by (simp add: mergeResponse_def contributes_def)
next
  case (Some results)
  with assms have "wellFormed results" by (simp add: answered_def)
  from mergeResponse_total[OF this, of input] obtain mem and out :: "addr list"
    where "mergeResponse input (Some results) = Inr (mem, out)" by blast
  then have m: "mergeResults [0..<length input] (input, []) results = Inr (mem, out)"
    by (simp add: mergeResponse_def)
  have b: "\<forall>a\<in>set [0..<length input]. a < length input" by simp
  from mergeResults_exact[OF m b] obtain copies where
    "mem = input @ copies" "out = [length input..<length input + length copies]"
    "list_all2 (copyFor input) copies (filter (\<lambda>r. r_Id r \<in> MetricID ` set input) results)"
    by (auto simp: map_nth)
  with m Some show ?thesis
    by (auto simp: mergeResponse_def contributes_def)
qed

text \<open>A worker of either kind with a slice issues one request, for that slice, and merges
  the response to it.\<close>

lemma worker_request:
  assumes "w = discoveryWorker client svc len job rp qs M i
         \<or> w = customNamespaceWorker client cjob qs M i"
    and "batchInput qs M i = Inr input"
  shows "\<exists>req. (bw_events w = [GetMetricData req]
               \<or> bw_events w = [Acquire DataGate, GetMetricData req, Release DataGate])
      \<and> gmd_Queries req = input
      \<and> bw_input w = Inr input
      \<and> bw_merged w = mergeResponse input (getMetricData client req)"
  using assms
  by (auto simp: discoveryWorker_def customNamespaceWorker_def Let_def
      createGetMetricDataInput_def)

lemma worker_issued:
  assumes "w = discoveryWorker client svc len job rp qs M i
         \<or> w = customNamespaceWorker client cjob qs M i"
    and "batchInput qs M i = Inr input"
    and "GetMetricData req \<in> set (bw_events w)"
  shows "(bw_events w = [GetMetricData req]
               \<or> bw_events w = [Acquire DataGate, GetMetricData req, Release DataGate])
      \<and> gmd_Queries req = input
      \<and> bw_merged w = mergeResponse input (getMetricData client req)"
proof -
  from worker_request[OF assms(1,2)] obtain req' where
    r: "bw_events w = [GetMetricData req']
               \<or> bw_events w = [Acquire DataGate, GetMetricData req', Release DataGate]"
    "gmd_Queries req' = input" "bw_merged w = mergeResponse input (getMetricData client req')"
    by blast
  from r(1) assms(3) have "req = req'" by auto
  with r show ?thesis by simp
qed



section \<open>The slice is never written\<close>

text \<open>Claim C8 as stated, that the slot of a query is mutated in place, fails. A slice of one query
  with id \<open>a\<close> receives a result for \<open>a\<close> with one value: after the merge, cell \<open>0\<close>,
  the query of the slice, still has an empty slot, and the value sits in the fresh cell
  \<open>1\<close>, the only one appended to the output.\<close>

theorem merge_in_place_counterexample:
  "mergeResponse [exQuery ''a''] (Some [exResult ''a'' [Some 1] [Some 10]])
     = Inr ([exQuery ''a'', exSlot (exQuery ''a'') 1 10], [1])
   \<and> r_Id (exResult ''a'' [Some 1] [Some 10]) = MetricID (exQuery ''a'')
   \<and> r_Values (exResult ''a'' [Some 1] [Some 10]) \<noteq> []
   \<and> GetMetricDataPoint (exQuery ''a'') = None
   \<and> GetMetricDataTimestamps (exQuery ''a'') = None"
  by (simp add: mergeResponse_def mergeStep_def setResult_def exQuery_def exResult_def exSlot_def)

text \<open>Claim C8, amended. A batch worker of either unit never writes to a query of its
  slice. For a response that is \<^verbatim>\<open>nil\<close> or well formed the worker ends without a
  panic; and whenever it ends without one, the cells of the slice hold what they held
  before, the pointers it appends are exactly the cells allocated behind the slice, in
  order, and these cells are none for a \<^verbatim>\<open>nil\<close> response and otherwise, in the order
  of the response, one for every result whose id a query of the slice carries, holding
  the copy of the first query of the slice with that id, with the slot set to the first
  value and timestamp of that result when its value sequence is not empty and as in the
  query otherwise.\<close>

theorem merge_copies_slice_untouched:
  assumes "w = discoveryWorker clientCloudwatch svc len job roundingPeriod getMetricDatas
                 maxMetricCount i
         \<or> w = customNamespaceWorker clientCloudwatch customNamespaceJob getMetricDatas
                 maxMetricCount i"
    and "batchInput getMetricDatas maxMetricCount i = Inr input"
    and "GetMetricData req \<in> set (bw_events w)"
  shows "(answered (getMetricData clientCloudwatch req) \<longrightarrow>
            (\<exists>mem output. bw_merged w = Inr (mem, output)))
     \<and> (\<forall>mem output. bw_merged w = Inr (mem, output) \<longrightarrow>
            take (length input) mem = input
          \<and> output = [length input..<length mem]
          \<and> map (\<lambda>a. mem ! a) output = drop (length input) mem
          \<and> (case getMetricData clientCloudwatch req of
                None \<Rightarrow> mem = input
              | Some results \<Rightarrow>
                  list_all2 (\<lambda>x r. copyFor input x r) (drop (length input) mem)
                    (filter (\<lambda>r. r_Id r \<in> MetricID ` set input) results)))"
proof -
  from worker_issued[OF assms(1,2,3)] have
    m: "bw_merged w = mergeResponse input (getMetricData clientCloudwatch req)"
    by simp
  have t: "answered (getMetricData clientCloudwatch req) \<longrightarrow>
            (\<exists>mem output. bw_merged w = Inr (mem, output))"
    using mergeResponse_exact[of "getMetricData clientCloudwatch req" input] m by auto
  have p: "take (length input) mem = input
          \<and> out = [length input..<length mem]
          \<and> map (\<lambda>a. mem ! a) out = drop (length input) mem
          \<and> (case getMetricData clientCloudwatch req of
                None \<Rightarrow> mem = input
              | Some results \<Rightarrow>
                  list_all2 (\<lambda>x r. copyFor input x r) (drop (length input) mem)
                    (filter (\<lambda>r. r_Id r \<in> MetricID ` set input) results))"
    if "bw_merged w = Inr (mem, out)" for mem and out :: "addr list"
  proof -
    from that m have "mergeResponse input (getMetricData clientCloudwatch req) = Inr (mem, out)"
      by simp
    from mergeResponse_partial[OF this] obtain copies where
      c: "mem = input @ copies" "out = [length input..<length input + length copies]"
         "contributes input (getMetricData clientCloudwatch req) copies" by blast
    have "map (\<lambda>a. (input @ copies) ! a) [length input..<length input + length copies] = copies"
      by (rule nth_appended_range)
    with c show ?thesis
      by (auto simp: contributes_def split: option.splits)
  qed
  from t p show ?thesis by blast
qed

theorem merge_copies_slice_untouched_witness:
  "batchInput (map exQuery [''a'', ''b'', ''c'']) 2 0 = Inr [exQuery ''a'', exQuery ''b'']
   \<and> GetMetricData (createGetMetricDataInput [exQuery ''a'', exQuery ''b''] ''AWS/ELB'' 300 0 None)
       \<in> set (bw_events (discoveryWorker
                (exAnswer [exResult ''b'' [Some 2] [Some 20], exResult ''b'' [] [],
                           exResult ''c'' [Some 7] [Some 70]])
                \<lparr>sf_Namespace = ''AWS/ELB'', sf_DimensionRegexps = []\<rparr> 300 (exJob 0) None
                (map exQuery [''a'', ''b'', ''c'']) 2 0))
   \<and> answered (getMetricData
                (exAnswer [exResult ''b'' [Some 2] [Some 20], exResult ''b'' [] [],
                           exResult ''c'' [Some 7] [Some 70]])
                (createGetMetricDataInput [exQuery ''a'', exQuery ''b''] ''AWS/ELB'' 300 0 None))
   \<and> bw_merged (discoveryWorker
                (exAnswer [exResult ''b'' [Some 2] [Some 20], exResult ''b'' [] [],
                           exResult ''c'' [Some 7] [Some 70]])
                \<lparr>sf_Namespace = ''AWS/ELB'', sf_DimensionRegexps = []\<rparr> 300 (exJob 0) None
                (map exQuery [''a'', ''b'', ''c'']) 2 0)
       = Inr ([exQuery ''a'', exQuery ''b'', exSlot (exQuery ''b'') 2 20, exQuery ''b''], [2, 3])
   \<and> take 2 [exQuery ''a'', exQuery ''b'', exSlot (exQuery ''b'') 2 20, exQuery ''b'']
       = [exQuery ''a'', exQuery ''b'']
   \<and> list_all2 (\<lambda>x r. copyFor [exQuery ''a'', exQuery ''b''] x r)
        [exSlot (exQuery ''b'') 2 20, exQuery ''b'']
        [exResult ''b'' [Some 2] [Some 20], exResult ''b'' [] []]"
proof -
  let ?rs = "[exResult ''b'' [Some 2] [Some 20], exResult ''b'' [] [],
              exResult ''c'' [Some 7] [Some 70]]"
  let ?qs = "map exQuery [''a'', ''b'', ''c'']"
  let ?svc = "\<lparr>sf_Namespace = ''AWS/ELB'', sf_DimensionRegexps = []\<rparr>"
  let ?w = "discoveryWorker (exAnswer ?rs) ?svc 300 (exJob 0) None ?qs 2 0"
  let ?req = "createGetMetricDataInput [exQuery ''a'', exQuery ''b''] ''AWS/ELB'' 300 0 None"
  let ?mem = "[exQuery ''a'', exQuery ''b'', exSlot (exQuery ''b'') 2 20, exQuery ''b'']"
  have b: "batchInput ?qs 2 0 = Inr [exQuery ''a'', exQuery ''b'']"
    by (simp add: batchInput_def wrap64_def Let_def)
  have ev: "GetMetricData ?req \<in> set (bw_events ?w)"
    using b by (simp add: discoveryWorker_def exJob_def Let_def)
  have a: "answered (getMetricData (exAnswer ?rs) ?req)"
    by (simp add: exAnswer_def answered_def wellFormed_def exResult_def)
  have g: "getMetricData (exAnswer ?rs) ?req = Some ?rs"
    by (simp add: exAnswer_def)
  have m: "bw_merged ?w = Inr (?mem, [2, 3])"
    using b by (simp add: discoveryWorker_def Let_def exAnswer_def mergeResponse_def mergeStep_def
        setResult_def exQuery_def exResult_def exSlot_def)
  have f: "filter (\<lambda>r. r_Id r \<in> MetricID ` set [exQuery ''a'', exQuery ''b'']) ?rs
      = [exResult ''b'' [Some 2] [Some 20], exResult ''b'' [] []]"
    by (simp add: exQuery_def exResult_def)
  from merge_copies_slice_untouched[of ?w "exAnswer ?rs" ?svc 300 "exJob 0" None ?qs 2 0 _
      "[exQuery ''a'', exQuery ''b'']" ?req, OF _ b ev]
  have "\<forall>mem out. bw_merged ?w = Inr (mem, out) \<longrightarrow>
            take (length [exQuery ''a'', exQuery ''b'']) mem = [exQuery ''a'', exQuery ''b'']
          \<and> out = [length [exQuery ''a'', exQuery ''b'']..<length mem]
          \<and> map (\<lambda>a. mem ! a) out = drop (length [exQuery ''a'', exQuery ''b'']) mem
          \<and> (case getMetricData (exAnswer ?rs) ?req of
                None \<Rightarrow> mem = [exQuery ''a'', exQuery ''b'']
              | Some results \<Rightarrow>
                  list_all2 (\<lambda>x r. copyFor [exQuery ''a'', exQuery ''b''] x r)
                    (drop (length [exQuery ''a'', exQuery ''b'']) mem)
                    (filter (\<lambda>r. r_Id r \<in> MetricID ` set [exQuery ''a'', exQuery ''b''])
                       results))"
    by blast
  with m have "take (length [exQuery ''a'', exQuery ''b'']) ?mem = [exQuery ''a'', exQuery ''b'']
     \<and> (case getMetricData (exAnswer ?rs) ?req of
                None \<Rightarrow> ?mem = [exQuery ''a'', exQuery ''b'']
              | Some results \<Rightarrow>
                  list_all2 (\<lambda>x r. copyFor [exQuery ''a'', exQuery ''b''] x r)
                    (drop (length [exQuery ''a'', exQuery ''b'']) ?mem)
                    (filter (\<lambda>r. r_Id r \<in> MetricID ` set [exQuery ''a'', exQuery ''b''])
                       results))"
    by blast
  then have "take 2 ?mem = [exQuery ''a'', exQuery ''b'']
     \<and> list_all2 (\<lambda>x r. copyFor [exQuery ''a'', exQuery ''b''] x r)
        [exSlot (exQuery ''b'') 2 20, exQuery ''b'']
        [exResult ''b'' [Some 2] [Some 20], exResult ''b'' [] []]"
    unfolding g option.case f by simp
  with b ev a m show ?thesis by blast
qed

section \<open>Partitioning: the spawning loop\<close>

lemma wrap64_id: "- (2 ^ 63) \<le> x \<Longrightarrow> x < 2 ^ 63 \<Longrightarrow> wrap64 x = x"
  unfolding wrap64_def by (simp add: mod_pos_pos_trivial)

lemma batchCount_done: "0 < M \<Longrightarrow> \<not> i < n \<Longrightarrow> batchCount M n i = 0"
  unfolding batchCount_def by (simp add: pos_imp_zdiv_nonneg_iff)

lemma batchCount_step:
  assumes "0 < M" "i < n"
  shows "batchCount M n i = Suc (batchCount M n (i + M))"
proof -
  have "(i + M - n) div M = (i - n) div M + 1"
    using assms(1) by (metis add.commute add_diff_eq div_add_self2 less_irrefl)
  moreover have "(i - n) div M < 0"
    using assms by (simp add: div_neg_pos_less0)
  ultimately show ?thesis
    unfolding batchCount_def by simp
qed

lemma spawnBatches_closed:
  assumes "0 < M" "M < 2 ^ 63" "n \<le> 2 ^ 62" "i = 0 \<or> M \<le> i"
  shows "spawnBatches worker M n i acc
           = Some (acc @ map (\<lambda>k. worker (i + int k * M)) [0..<batchCount M n i])"
  using assms(4)
proof (induction "nat (n - i)" arbitrary: i acc rule: less_induct)
  case less
  show ?case
  proof (cases "i < n")
    case False
    then show ?thesis
      using assms(1) by (subst spawnBatches.simps) (simp add: batchCount_done)
  next
    case True
    have nonneg: "0 \<le> i" using less.prems assms(1) by auto
    have "i + M < 2 ^ 63"
      using less.prems assms True by auto
    then have w: "wrap64 (i + M) = i + M"
      using nonneg assms(1) by (intro wrap64_id) auto
    have smaller: "nat (n - (i + M)) < nat (n - i)"
      using True assms(1) by simp
    have next_ok: "i + M = 0 \<or> M \<le> i + M" using nonneg by simp
    have ih: "spawnBatches worker M n (i + M) (acc @ [worker i])
           = Some ((acc @ [worker i]) @ map (\<lambda>k. worker (i + M + int k * M))
                [0..<batchCount M n (i + M)])"
      by (rule less.hyps[OF smaller next_ok])
    have shift: "map (\<lambda>k. worker (i + int k * M)) [0..<Suc (batchCount M n (i + M))]
        = worker i # map (\<lambda>k. worker (i + M + int k * M)) [0..<batchCount M n (i + M)]"
      by (simp add: map_upt_Suc algebra_simps del: upt_Suc)
    show ?thesis
      apply (subst spawnBatches.simps)
      using True w ih shift batchCount_step[OF assms(1) True]
      by simp
  qed
qed

lemma div_mult_bounds:
  fixes a M :: int
  assumes "0 < M"
  shows "a div M * M \<le> a" and "a < (a div M + 1) * M"
proof -
  have e: "a div M * M + a mod M = a" by simp
  have "0 \<le> a mod M" "a mod M < M" using assms by simp_all
  with e show "a div M * M \<le> a" by linarith
  have "(a div M + 1) * M = a div M * M + M" by (simp add: distrib_right)
  with e \<open>a mod M < M\<close> show "a < (a div M + 1) * M" by linarith
qed

lemma batchCount_bound:
  assumes "0 < M" "k < batchCount M n 0"
  shows "int k * M < n"
proof -
  have "int k < - ((- n) div M)" using assms(2) unfolding batchCount_def by simp
  then have "(- n) div M + 1 \<le> - int k" by simp
  then have "((- n) div M + 1) * M \<le> (- int k) * M"
    using assms(1) by (intro mult_right_mono) simp_all
  moreover have "- n < ((- n) div M + 1) * M"
    using div_mult_bounds(2)[OF assms(1)] .
  ultimately show ?thesis by simp
qed

lemma no_overflow:
  fixes i M n :: int
  shows "0 < M \<Longrightarrow> M < 2 ^ 63 \<Longrightarrow> n \<le> 2 ^ 62 \<Longrightarrow> i < n \<Longrightarrow> i = 0 \<or> M \<le> i \<Longrightarrow>
    i + M < 2 ^ 63"
  by auto

lemma batchInput_closed:
  assumes "0 < M" "M < 2 ^ 63" "int (length qs) \<le> 2 ^ 62" "k < batchCount M (int (length qs)) 0"
  shows "batchInput qs M (int k * M) = Inr (take (nat M) (drop (k * nat M) qs))"
proof -
  let ?i = "int k * M"
  have lt: "?i < int (length qs)" using batchCount_bound[OF assms(1,4)] .
  have nonneg: "0 \<le> ?i" using assms(1) by simp
  have "?i = 0 \<or> M \<le> ?i"
    using assms(1) by (cases k) (simp_all add: distrib_right)
  then have "?i + M < 2 ^ 63"
    using no_overflow[OF assms(1,2,3) lt] by blast
  moreover have "- (2 ^ 63) \<le> ?i + M"
  proof -
    have "(0::int) \<le> ?i + M" using nonneg assms(1) by linarith
    moreover have "- (2 ^ 63) \<le> (0::int)" by simp
    ultimately show ?thesis by (rule order_trans[rotated])
  qed
  ultimately have w: "wrap64 (?i + M) = ?i + M"
    by (intro wrap64_id)
  have i: "nat ?i = k * nat M"
    using assms(1) by (simp add: nat_mult_distrib)
  have "take (nat (int (length qs) - ?i)) (drop (nat ?i) qs) = take (nat M) (drop (nat ?i) qs)"
    if "?i + M > int (length qs)"
  proof -
    have "length (drop (nat ?i) qs) \<le> nat M" using that nonneg by simp
    moreover have "length (drop (nat ?i) qs) \<le> nat (int (length qs) - ?i)"
      using nonneg by simp
    ultimately show ?thesis by simp
  qed
  then show ?thesis
    unfolding batchInput_def Let_def w using lt nonneg assms(1) i by auto
qed

lemma concat_windows:
  "concat (map (\<lambda>k. take m (drop (k * m) xs)) [0..<c]) = take (c * m) xs"
proof (induction c)
  case 0
  then show ?case by simp
next
  case (Suc c)
  have "take (c * m) xs @ take m (drop (c * m) xs) = take (c * m + m) xs"
    by (simp add: take_add)
  with Suc show ?case by (simp add: add.commute)
qed

lemma batchCount_covers:
  assumes "0 < M"
  shows "n \<le> int (batchCount M n 0) * M"
proof -
  have "(- n) div M * M \<le> - n"
    using div_mult_bounds(1)[OF assms] .
  then have "n \<le> - ((- n) div M) * M" by simp
  also have "\<dots> \<le> int (batchCount M n 0) * M"
    unfolding batchCount_def using assms by (simp add: mult_right_mono)
  finally show ?thesis .
qed

lemma batchCount_ceiling:
  assumes "0 < M"
  shows "int (batchCount M (int n) 0) = \<lceil>real n / real_of_int M\<rceil>"
proof -
  have "\<lceil>real_of_int (int n) / real_of_int M\<rceil> = - (- int n div M)"
    by (rule ceiling_divide_eq_div)
  moreover have "- int n div M \<le> 0"
  proof (cases "n = 0")
    case True
    then show ?thesis by simp
  next
    case False
    then have "- int n < 0" by simp
    then have "- int n div M < 0" using assms by (simp add: pos_imp_zdiv_neg_iff)
    then show ?thesis by simp
  qed
  ultimately show ?thesis
    unfolding batchCount_def by simp
qed

lemma spawned_isPartition:
  assumes "0 < M" "M < 2 ^ 63" "int (length qs) \<le> 2 ^ 62"
    and "\<And>i. bw_input (worker i) = batchInput qs M i"
  shows "\<exists>ws. spawnBatches worker M (int (length qs)) 0 [] = Some ws \<and> isPartition M qs ws"
proof -
  let ?c = "batchCount M (int (length qs)) 0"
  let ?ws = "map (\<lambda>k. worker (int k * M)) [0..<?c]"
  have sp: "spawnBatches worker M (int (length qs)) 0 [] = Some ?ws"
    using spawnBatches_closed[OF assms(1,2,3), of 0 worker "[]"] by simp
  have len: "length ?ws = ?c" by simp
  have inputs: "map bw_input ?ws = map (\<lambda>k. Inr (take (nat M) (drop (k * nat M) qs))) [0..<?c]"
    using batchInput_closed[OF assms(1,2,3)] by (simp add: assms(4))
  have "int (length qs) \<le> int (?c * nat M)"
    using batchCount_covers[OF assms(1), of "int (length qs)"] assms(1) by simp
  then have "length qs \<le> ?c * nat M" by linarith
  then have whole: "concat (map (\<lambda>k. take (nat M) (drop (k * nat M) qs)) [0..<?c]) = qs"
    by (simp add: concat_windows)
  have nonempty: "list_all (\<lambda>k. take (nat M) (drop (k * nat M) qs) \<noteq> []) [0..<?c]"
  proof -
    have "take (nat M) (drop (k * nat M) qs) \<noteq> []" if "k < ?c" for k
    proof -
      from batchCount_bound[OF assms(1) that] have "int (k * nat M) < int (length qs)"
        using assms(1) by simp
      then have "k * nat M < length qs" by linarith
      then show ?thesis using assms(1) by simp
    qed
    then show ?thesis by (simp add: list_all_iff)
  qed
  have "isPartition M qs ?ws"
    unfolding isPartition_def len
    using batchCount_ceiling[OF assms(1), of "length qs"] inputs whole nonempty by blast
  with sp show ?thesis by blast
qed

lemma customNamespaceWorker_input:
  "bw_input (customNamespaceWorker client job qs M i) = batchInput qs M i"
  unfolding customNamespaceWorker_def by (simp add: Let_def split: sum.splits)

lemma discoveryWorker_input:
  "bw_input (discoveryWorker client svc len job rp qs M i) = batchInput qs M i"
  unfolding discoveryWorker_def by (simp add: Let_def split: sum.splits)

lemma isPartition_empty: "isPartition M [] []"
  by (simp add: isPartition_def)

text \<open>Claim C1. For a batch size \<open>M\<close> with \<open>0 < M\<close> (and below \<open>2 ^ 63\<close>, as every
  \<^verbatim>\<open>int\<close> is) and a query list of length \<open>N\<close> (at most \<open>2 ^ 62\<close>, which every
  slice of these structs is), the CustomNamespace unit and the Discovery unit (once its
  resource lookup has returned resources) spawn \<open>\<lceil>N / M\<rceil>\<close> workers, worker \<open>k\<close> is
  given the contiguous window of width \<open>M\<close> at offset \<open>k * M\<close> (the last one may be
  shorter, none is empty), and the windows put together are the query list: nothing is
  left out and nothing occurs twice.\<close>

theorem units_partition_queries:
  fixes M :: int and h and rnd and customNamespaceJob and region and accountId
    and clientCloudwatch and job and tagsOnMetrics and resources
  defines "qsC \<equiv> snd (getMetricDataForQueriesForCustomNamespace h rnd customNamespaceJob region
                        accountId clientCloudwatch)"
  defines "qsD \<equiv> snd (getMetricDataForQueries h job (GetService h (j_Type job)) region accountId
                        tagsOnMetrics clientCloudwatch resources)"
  assumes "0 < M" and "M < 2 ^ 63"
    and "int (length qsC) \<le> 2 ^ 62" and "int (length qsD) \<le> 2 ^ 62"
    and "clientTag job region = (resources, None)" and "resources \<noteq> []"
  shows "(\<exists>ws. ur_spawned (scrapeCustomNamespaceJobUsingMetricData h rnd customNamespaceJob
                  region accountId clientCloudwatch M order) = Some ws
             \<and> isPartition M qsC ws)
       \<and> (\<exists>ws. ur_spawned (scrapeDiscoveryJobUsingMetricData h job region accountId
                  tagsOnMetrics clientTag clientCloudwatch M roundingPeriod order) = Some ws
             \<and> isPartition M qsD ws)"
proof
  show "\<exists>ws. ur_spawned (scrapeCustomNamespaceJobUsingMetricData h rnd customNamespaceJob
                  region accountId clientCloudwatch M order) = Some ws
             \<and> isPartition M qsC ws"
  proof (cases "qsC = []")
    case True
    then show ?thesis
      unfolding scrapeCustomNamespaceJobUsingMetricData_def qsC_def
      by (simp add: Let_def isPartition_empty)
  next
    case False
    from spawned_isPartition[OF assms(3,4,5), of "customNamespaceWorker clientCloudwatch
        customNamespaceJob qsC M"]
    obtain ws where "spawnBatches (customNamespaceWorker clientCloudwatch customNamespaceJob
        qsC M) M (int (length qsC)) 0 [] = Some ws" "isPartition M qsC ws"
      using customNamespaceWorker_input by blast
    with False show ?thesis
      unfolding scrapeCustomNamespaceJobUsingMetricData_def qsC_def
      by (simp add: Let_def)
  qed
next
  let ?svc = "GetService h (j_Type job)"
  let ?len = "getMetricDataInputLength h job"
  show "\<exists>ws. ur_spawned (scrapeDiscoveryJobUsingMetricData h job region accountId
                  tagsOnMetrics clientTag clientCloudwatch M roundingPeriod order) = Some ws
             \<and> isPartition M qsD ws"
  proof (cases "qsD = []")
    case True
    then show ?thesis
      unfolding scrapeDiscoveryJobUsingMetricData_def qsD_def
      using assms(7,8) by (simp add: Let_def isPartition_empty)
  next
    case False
    from spawned_isPartition[OF assms(3,4,6), of "discoveryWorker clientCloudwatch ?svc ?len
        job roundingPeriod qsD M"]
    obtain ws where "spawnBatches (discoveryWorker clientCloudwatch ?svc ?len job
        roundingPeriod qsD M) M (int (length qsD)) 0 [] = Some ws" "isPartition M qsD ws"
      using discoveryWorker_input by blast
    with False show ?thesis
      unfolding scrapeDiscoveryJobUsingMetricData_def qsD_def
      using assms(7,8) by (simp add: Let_def)
  qed
qed

lemma exCustom_queries:
  "length (snd (getMetricDataForQueriesForCustomNamespace exHelpers (\<lambda>n. n) exCustomNamespace
      ''eu-west-1'' (Some ''123'') exCloudwatch)) = 4"
  by (simp add: getMetricDataForQueriesForCustomNamespace_def exCustomNamespace_def
      exCloudwatch_def exMetric_def exHelpers_def)

lemma exDiscovery_queries:
  "length (snd (getMetricDataForQueries exHelpers (exJob 0) (GetService exHelpers (j_Type (exJob 0)))
      ''eu-west-1'' (Some ''123'') [] exCloudwatch [exResource])) = 4"
  by (simp add: getMetricDataForQueries_def exJob_def exCloudwatch_def exMetric_def
      exHelpers_def)

theorem units_partition_queries_witness:
  "(0::int) < 3 \<and> (3::int) < 2 ^ 63
   \<and> exTagging (exJob 0) ''eu-west-1'' = ([exResource], None)
   \<and> (\<exists>ws. ur_spawned (scrapeCustomNamespaceJobUsingMetricData exHelpers (\<lambda>n. n)
                exCustomNamespace ''eu-west-1'' (Some ''123'') exCloudwatch 3 [0, 1]) = Some ws
           \<and> length ws = 2)
   \<and> (\<exists>ws. ur_spawned (scrapeDiscoveryJobUsingMetricData exHelpers (exJob 0) ''eu-west-1''
                (Some ''123'') [] exTagging exCloudwatch 3 None [0, 1]) = Some ws
           \<and> length ws = 2)"
proof -
  have t: "exTagging (exJob 0) ''eu-west-1'' = ([exResource], None)"
    by (simp add: exTagging_def)
  have c: "\<lceil>real (4::nat) / real_of_int 3\<rceil> = 2" by simp
  from units_partition_queries[where M = 3 and h = exHelpers and rnd = "\<lambda>n. n"
      and customNamespaceJob = exCustomNamespace and region = "''eu-west-1''"
      and accountId = "Some ''123''" and clientCloudwatch = exCloudwatch and job = "exJob 0"
      and tagsOnMetrics = "[]" and resources = "[exResource]" and clientTag = exTagging
      and order = "[0, 1]" and roundingPeriod = None, OF _ _ _ _ t]
  show ?thesis
    using t c by (simp add: exCustom_queries exDiscovery_queries isPartition_def) blast
qed

text \<open>A negative batch size: the first goroutine panics in its slice expression, and so
  does the CustomNamespace unit, whether or not the spawning loop ends.\<close>

lemma negative_batch_size_slice:
  assumes "M < 0" "- (2 ^ 63) \<le> M"
  shows "batchInput qs M 0 = Inl SliceBoundsOutOfRange"
proof -
  have "wrap64 M = M" using assms by (intro wrap64_id) simp_all
  then show ?thesis
    using assms(1) by (simp add: batchInput_def Let_def)
qed

lemma negative_batch_size_panics:
  assumes "M < 0" "- (2 ^ 63) \<le> M"
    and "snd (getMetricDataForQueriesForCustomNamespace h rnd customNamespaceJob region accountId
                clientCloudwatch) \<noteq> []"
  shows "\<exists>p. ur_return (scrapeCustomNamespaceJobUsingMetricData h rnd customNamespaceJob region
                 accountId clientCloudwatch M order) = Panics p"
  using assms(3) negative_batch_size_slice[OF assms(1,2)]
  by (simp add: scrapeCustomNamespaceJobUsingMetricData_def Let_def joinBatches_def
      customNamespaceWorker_def)

section \<open>What the batches contribute\<close>










lemma decimal_digits:
  "decimal 0 = ''0''" "decimal 1 = ''1''" "decimal 2 = ''2''" "decimal 3 = ''3''"
  "decimal (Suc 0) = ''1''" "decimal (Suc (Suc 0)) = ''2''" "decimal (Suc (Suc (Suc 0))) = ''3''"
  by code_simp+








section \<open>The window length and the requests of the Discovery unit\<close>

lemma lengthLoop_fold: "lengthLoop len ms = fold max (map m_Length ms) len"
  by (induction ms arbitrary: len) (simp_all add: max_def)

lemma lengthLoop_Max: "lengthLoop len ms = Max (set (len # map m_Length ms))"
  by (simp only: lengthLoop_fold Max.set_eq_fold)

lemma spawnBatches_range:
  "spawnBatches worker M n i acc = Some ws \<Longrightarrow> set ws \<subseteq> set acc \<union> range worker"
proof (rule spawnBatches.raw_induct[where P = "\<lambda>worker M n i acc ws.
    set ws \<subseteq> set acc \<union> range worker"])
  fix f :: "(int \<Rightarrow> 'a) \<Rightarrow> int \<Rightarrow> int \<Rightarrow> int \<Rightarrow> 'a list \<Rightarrow> 'a list option"
    and worker' M' n' i' acc' ws'
  assume ih: "\<And>worker M n i acc ws. f worker M n i acc = Some ws
      \<Longrightarrow> set ws \<subseteq> set acc \<union> range worker"
    and body: "(if i' < n' then f worker' M' n' (wrap64 (i' + M')) (acc' @ [worker' i'])
                else Some acc') = Some ws'"
  show "set ws' \<subseteq> set acc' \<union> range worker'"
  proof (cases "i' < n'")
    case True
    with body have "f worker' M' n' (wrap64 (i' + M')) (acc' @ [worker' i']) = Some ws'"
      by simp
    from ih[OF this] show ?thesis by auto
  next
    case False
    with body show ?thesis by auto
  qed
qed

lemma discoveryWorker_requests:
  "GetMetricData req \<in> set (bw_events (discoveryWorker client svc len job rp qs M i))
   \<Longrightarrow> gmd_Length req = len"
  unfolding discoveryWorker_def
  by (auto simp: Let_def createGetMetricDataInput_def split: sum.splits)

lemma discovery_spawned:
  assumes "ur_spawned (scrapeDiscoveryJobUsingMetricData h job region accountId tagsOnMetrics
             clientTag clientCloudwatch M roundingPeriod order) = Some ws"
    and "w \<in> set ws"
  shows "\<exists>i. w = discoveryWorker clientCloudwatch (GetService h (j_Type job))
           (getMetricDataInputLength h job) job roundingPeriod
           (snd (getMetricDataForQueries h job (GetService h (j_Type job)) region accountId
                  tagsOnMetrics clientCloudwatch (fst (clientTag job region)))) M i"
proof -
  obtain resources err where t: "clientTag job region = (resources, err)"
    by (cases "clientTag job region")
  let ?qs = "snd (getMetricDataForQueries h job (GetService h (j_Type job)) region accountId
                  tagsOnMetrics clientCloudwatch resources)"
  let ?worker = "discoveryWorker clientCloudwatch (GetService h (j_Type job))
           (getMetricDataInputLength h job) job roundingPeriod ?qs M"
  from assms t have "spawnBatches ?worker M (int (length ?qs)) 0 [] = Some ws"
    unfolding scrapeDiscoveryJobUsingMetricData_def
    by (auto simp: Let_def split: if_splits)
  from spawnBatches_range[OF this] assms(2) t show ?thesis by auto
qed

text \<open>Claim C5 as stated fails: the length is not the maximum of the job-level override,
  the per-metric overrides and the default. A job-level override of \<open>60\<close> replaces the
  default of \<open>300\<close>; with no larger per-metric override the length is \<open>60\<close>.\<close>

theorem window_length_counterexample:
  "getMetricDataInputLength exHelpers (exJob 60)
     \<noteq> Max (set ([j_Length (exJob 60), DefaultLengthSeconds exHelpers]
                   @ map m_Length (j_Metrics (exJob 60))))"
  by (simp add: getMetricDataInputLength_def exHelpers_def exJob_def exMetric_def)

text \<open>Claim C5, amended. The window length of a Discovery job is the maximum of the
  per-metric overrides and of a base, which is the job-level override when that is
  positive and the default constant otherwise; and every batched request that a worker of
  the job issues carries this one length.\<close>

theorem window_length:
  "getMetricDataInputLength h job
     = Max (set ((if j_Length job > 0 then j_Length job else DefaultLengthSeconds h)
                 # map m_Length (j_Metrics job)))
   \<and> (\<forall>ws. ur_spawned (scrapeDiscoveryJobUsingMetricData h job region accountId tagsOnMetrics
                 clientTag clientCloudwatch M roundingPeriod order) = Some ws
         \<longrightarrow> (\<forall>w\<in>set ws. \<forall>req. GetMetricData req \<in> set (bw_events w)
                \<longrightarrow> gmd_Length req = getMetricDataInputLength h job))"
proof
  show "getMetricDataInputLength h job
     = Max (set ((if j_Length job > 0 then j_Length job else DefaultLengthSeconds h)
                 # map m_Length (j_Metrics job)))"
    unfolding getMetricDataInputLength_def Let_def by (rule lengthLoop_Max)
next
  show "\<forall>ws. ur_spawned (scrapeDiscoveryJobUsingMetricData h job region accountId tagsOnMetrics
                 clientTag clientCloudwatch M roundingPeriod order) = Some ws
         \<longrightarrow> (\<forall>w\<in>set ws. \<forall>req. GetMetricData req \<in> set (bw_events w)
                \<longrightarrow> gmd_Length req = getMetricDataInputLength h job)"
  proof (intro allI impI ballI)
    fix ws w req
    assume sp: "ur_spawned (scrapeDiscoveryJobUsingMetricData h job region accountId
        tagsOnMetrics clientTag clientCloudwatch M roundingPeriod order) = Some ws"
      and w: "w \<in> set ws" and ev: "GetMetricData req \<in> set (bw_events w)"
    from discovery_spawned[OF sp w] obtain i where
      "w = discoveryWorker clientCloudwatch (GetService h (j_Type job))
           (getMetricDataInputLength h job) job roundingPeriod
           (snd (getMetricDataForQueries h job (GetService h (j_Type job)) region accountId
                  tagsOnMetrics clientCloudwatch (fst (clientTag job region)))) M i" ..
    with ev show "gmd_Length req = getMetricDataInputLength h job"
      using discoveryWorker_requests by blast
  qed
qed

lemma exDiscovery_length:
  "length (snd (getMetricDataForQueries exHelpers (exJob len) (GetService exHelpers ''AWS/ELB'')
      ''eu-west-1'' (Some ''123'') [] exCloudwatch [exResource])) = 4"
  by (simp add: getMetricDataForQueries_def exJob_def exCloudwatch_def exMetric_def
      exHelpers_def)

lemma exDiscovery_queries_eq:
  "snd (getMetricDataForQueries exHelpers (exJob len) \<lparr>sf_Namespace = ''AWS/ELB'', sf_DimensionRegexps = []\<rparr>
      ''eu-west-1'' (Some ''123'') [] exCloudwatch [exResource]) = exDiscoveryQueries"
  by (simp add: getMetricDataForQueries_def exJob_def exCloudwatch_def exMetric_def
      exHelpers_def exDiscoveryQueries_def)

lemma exDiscovery_spawned:
  "ur_spawned (scrapeDiscoveryJobUsingMetricData exHelpers (exJob len) ''eu-west-1''
       (Some ''123'') [] exTagging exCloudwatch 3 None [0, 1])
   = Some [discoveryWorker exCloudwatch \<lparr>sf_Namespace = ''AWS/ELB'', sf_DimensionRegexps = []\<rparr>
             (getMetricDataInputLength exHelpers (exJob len)) (exJob len) None
             exDiscoveryQueries 3 0,
           discoveryWorker exCloudwatch \<lparr>sf_Namespace = ''AWS/ELB'', sf_DimensionRegexps = []\<rparr>
             (getMetricDataInputLength exHelpers (exJob len)) (exJob len) None
             exDiscoveryQueries 3 3]"
proof -
  have svc: "GetService exHelpers (j_Type (exJob len))
      = \<lparr>sf_Namespace = ''AWS/ELB'', sf_DimensionRegexps = []\<rparr>"
    by (simp add: exHelpers_def exJob_def)
  have n: "length exDiscoveryQueries = 4" "exDiscoveryQueries \<noteq> []"
    by (simp_all add: exDiscoveryQueries_def)
  show ?thesis
    unfolding scrapeDiscoveryJobUsingMetricData_def
    by (simp add: exTagging_def Let_def svc exDiscovery_queries_eq n spawnBatches.simps
        wrap64_def)
qed

lemma exDiscovery_worker_events:
  "bw_events (discoveryWorker exCloudwatch svc len job rp exDiscoveryQueries 3 0)
     = [GetMetricData (createGetMetricDataInput (take 3 exDiscoveryQueries) (sf_Namespace svc)
          len (j_Delay job) rp)]"
  "bw_events (discoveryWorker exCloudwatch svc len job rp exDiscoveryQueries 3 3)
     = [GetMetricData (createGetMetricDataInput (drop 3 exDiscoveryQueries) (sf_Namespace svc)
          len (j_Delay job) rp)]"
  by (simp_all add: discoveryWorker_def batchInput_def wrap64_def Let_def
      exDiscoveryQueries_def)

theorem window_length_witness:
  "getMetricDataInputLength exHelpers (exJob 60) = 60
   \<and> (\<exists>ws w req. ur_spawned (scrapeDiscoveryJobUsingMetricData exHelpers (exJob 60)
          ''eu-west-1'' (Some ''123'') [] exTagging exCloudwatch 3 None [0, 1]) = Some ws
        \<and> w \<in> set ws \<and> GetMetricData req \<in> set (bw_events w) \<and> gmd_Length req = 60)"
proof -
  let ?svc = "\<lparr>sf_Namespace = ''AWS/ELB'', sf_DimensionRegexps = []\<rparr>"
  let ?w = "discoveryWorker exCloudwatch ?svc (getMetricDataInputLength exHelpers (exJob 60))
              (exJob 60) None exDiscoveryQueries 3 0"
  let ?req = "createGetMetricDataInput (take 3 exDiscoveryQueries) (sf_Namespace ?svc)
          (getMetricDataInputLength exHelpers (exJob 60)) (j_Delay (exJob 60)) None"
  have len: "getMetricDataInputLength exHelpers (exJob 60) = 60"
    by (simp add: getMetricDataInputLength_def exHelpers_def exJob_def exMetric_def)
  have sp: "ur_spawned (scrapeDiscoveryJobUsingMetricData exHelpers (exJob 60)
          ''eu-west-1'' (Some ''123'') [] exTagging exCloudwatch 3 None [0, 1])
       = Some [?w, discoveryWorker exCloudwatch ?svc
             (getMetricDataInputLength exHelpers (exJob 60)) (exJob 60) None
             exDiscoveryQueries 3 3]"
    by (rule exDiscovery_spawned)
  have ev: "GetMetricData ?req \<in> set (bw_events ?w)"
    by (simp add: exDiscovery_worker_events(1))
  have "gmd_Length ?req = getMetricDataInputLength exHelpers (exJob 60)"
    using window_length[of exHelpers "exJob 60" "''eu-west-1''" "Some ''123''" "[]" exTagging
        exCloudwatch 3 None "[0, 1]"] sp ev by simp
  with len have "gmd_Length ?req = 60" by simp
  with len sp ev show ?thesis by (intro conjI exI[of _ ?w] exI[of _ ?req] exI) auto
qed

section \<open>The data gate and the batch workers\<close>

text \<open>A Discovery job with four queries and batch size \<open>3\<close> spawns two workers; each of
  them issues its batched data fetch and nothing else: it neither sends to nor receives
  from the data gate, which the unit is not even handed. The worker of the CustomNamespace
  unit, on the same slice, brackets the same call with the gate.\<close>

lemma discovery_workers_bypass_data_gate:
  "ur_spawned (scrapeDiscoveryJobUsingMetricData exHelpers (exJob 0) ''eu-west-1''
       (Some ''123'') [] exTagging exCloudwatch 3 None [0, 1])
     = Some [discoveryWorker exCloudwatch (GetService exHelpers ''AWS/ELB'') 300 (exJob 0) None
               exDiscoveryQueries 3 0,
             discoveryWorker exCloudwatch (GetService exHelpers ''AWS/ELB'') 300 (exJob 0) None
               exDiscoveryQueries 3 3]
   \<and> bw_events (discoveryWorker exCloudwatch (GetService exHelpers ''AWS/ELB'') 300 (exJob 0)
         None exDiscoveryQueries 3 0)
       = [GetMetricData (createGetMetricDataInput (take 3 exDiscoveryQueries) ''AWS/ELB'' 300 0
            None)]
   \<and> bw_events (discoveryWorker exCloudwatch (GetService exHelpers ''AWS/ELB'') 300 (exJob 0)
         None exDiscoveryQueries 3 3)
       = [GetMetricData (createGetMetricDataInput (drop 3 exDiscoveryQueries) ''AWS/ELB'' 300 0
            None)]
   \<and> bw_events (customNamespaceWorker exCloudwatch exCustomNamespace exDiscoveryQueries 3 0)
       = [Acquire DataGate,
          GetMetricData (createGetMetricDataInput (take 3 exDiscoveryQueries) ''MyApp'' 300 0
            None),
          Release DataGate]"
proof -
  have len: "getMetricDataInputLength exHelpers (exJob 0) = 300"
    by (simp add: getMetricDataInputLength_def exHelpers_def exJob_def exMetric_def)
  have svc: "GetService exHelpers ''AWS/ELB''
      = \<lparr>sf_Namespace = ''AWS/ELB'', sf_DimensionRegexps = []\<rparr>"
    by (simp add: exHelpers_def)
  have d: "j_Delay (exJob 0) = 0" by (simp add: exJob_def)
  have c: "bw_events (customNamespaceWorker exCloudwatch exCustomNamespace exDiscoveryQueries 3 0)
       = [Acquire DataGate,
          GetMetricData (createGetMetricDataInput (take 3 exDiscoveryQueries) ''MyApp'' 300 0
            None),
          Release DataGate]"
    by (simp add: customNamespaceWorker_def batchInput_def wrap64_def Let_def
      exDiscoveryQueries_def exCustomNamespace_def)
  show ?thesis
    using exDiscovery_spawned[of 0] exDiscovery_worker_events[of
        "GetService exHelpers ''AWS/ELB''" 300 "exJob 0" None] c
    by (simp add: len svc d)
qed

lemma noGates_Cons:
  "noGates (ev # body) = ((\<forall>g. ev \<noteq> Acquire g \<and> ev \<noteq> Release g) \<and> noGates body)"
  by (cases ev) (simp_all add: noGates_def)

lemma noGates_Nil: "noGates []"
  by (simp add: noGates_def)

lemma idle_not_holding: "idle t \<Longrightarrow> \<not> holding t"
proof
  assume i: "idle t" and h: "holding t"
  from h obtain body where b: "noGates body" "fst t = body @ [Release DataGate]"
    unfolding holding_def by blast
  from i b(2) have "gated (body @ [Release DataGate])"
    unfolding idle_def by auto
  then obtain body' where "body @ [Release DataGate] = Acquire DataGate # body' @ [Release DataGate]"
    unfolding gated_def by blast
  with b(1) show False
    by (cases body) (simp_all add: noGates_Cons)
qed

lemma idle_not_fetching: "idle t \<Longrightarrow> \<not> fetching t"
  unfolding idle_def fetching_def by auto

lemma stepEvent_gated:
  assumes "idle t \<or> holding t"
    and "stepEvent cap held t = Some (t', held')"
    and "held DataGate \<le> cap DataGate"
  shows "(idle t' \<or> holding t')
     \<and> held' DataGate + (if holding t then 1 else 0) = held DataGate + (if holding t' then 1 else 0)
     \<and> held' DataGate \<le> cap DataGate"
  using assms(1)
proof
  assume i: "idle t"
  with assms(2) obtain body where body: "noGates body"
    and t: "t = (Acquire DataGate # body @ [Release DataGate], False)"
    unfolding idle_def gated_def by (cases t) auto
  from assms(2) t have lt: "held DataGate < cap DataGate"
    and t': "t' = (body @ [Release DataGate], False)"
    and h': "held' = held(DataGate := held DataGate + 1)"
    by (auto split: if_splits)
  from body t' have "holding t'" unfolding holding_def by auto
  moreover from i have "\<not> holding t" by (rule idle_not_holding)
  ultimately show ?thesis using lt h' by simp
next
  assume h: "holding t"
  then obtain body b where body: "noGates body" and t: "t = (body @ [Release DataGate], b)"
    unfolding holding_def by (cases t) auto
  show ?thesis
  proof (cases body)
    case Nil
    with assms(2) t have pos: "0 < held DataGate" and t': "t' = ([], False)"
      and h': "held' = held(DataGate := held DataGate - 1)"
      by (auto split: if_splits)
    from t' have i': "idle t'" unfolding idle_def by simp
    then have "\<not> holding t'" by (rule idle_not_holding)
    with i' h pos h' assms(3) show ?thesis by simp
  next
    case (Cons ev body')
    with body have ev: "\<forall>g. ev \<noteq> Acquire g \<and> ev \<noteq> Release g" and body': "noGates body'"
      by (simp_all add: noGates_Cons)
    from assms(2) t Cons ev have
      "(t' = (ev # body' @ [Release DataGate], True) \<or> t' = (body' @ [Release DataGate], False))
       \<and> held' = held"
      by (cases ev) (auto split: if_splits)
    then have "holding t'" and "held' = held"
      using body body' Cons unfolding holding_def by auto
    with h assms(3) show ?thesis by simp
  qed
qed

lemma count_update:
  "k < length ts \<Longrightarrow>
   length (filter P (ts[k := t])) + (if P (ts ! k) then 1 else 0)
     = length (filter P ts) + (if P t then 1 else 0)"
proof (induction ts arbitrary: k)
  case Nil
  then show ?case by simp
next
  case (Cons a ts)
  then show ?case by (cases k) auto
qed

lemma gateInvariant_step:
  assumes "gateInvariant cap s" "stepThread cap k s = Some s'"
  shows "gateInvariant cap s'"
proof -
  obtain ts held where s: "s = (ts, held)" by (cases s)
  from assms(2) s obtain t' held' where k: "k < length ts"
    and ev: "stepEvent cap held (ts ! k) = Some (t', held')"
    and s': "s' = (ts[k := t'], held')"
    unfolding stepThread_def by (auto split: if_splits option.splits)
  from assms(1) s have all: "\<forall>t\<in>set ts. idle t \<or> holding t"
    and cnt: "held DataGate = length (filter holding ts)"
    and le: "held DataGate \<le> cap DataGate"
    unfolding gateInvariant_def by simp_all
  from all k have tk: "idle (ts ! k) \<or> holding (ts ! k)" by simp
  from stepEvent_gated[OF tk ev le] have t': "idle t' \<or> holding t'"
    and bal: "held' DataGate + (if holding (ts ! k) then 1 else 0)
               = held DataGate + (if holding t' then 1 else 0)"
    and le': "held' DataGate \<le> cap DataGate" by simp_all
  have all': "\<forall>t\<in>set (ts[k := t']). idle t \<or> holding t"
    using all t' by (metis insert_iff set_update_subset_insert subsetD)
  from count_update[OF k, of holding t'] bal cnt
  have "held' DataGate = length (filter holding (ts[k := t']))" by simp
  with all' le' show ?thesis unfolding gateInvariant_def s' by simp
qed

lemma gateInvariant_run:
  "gateInvariant cap s \<Longrightarrow> runSchedule cap sched s = Some s' \<Longrightarrow> gateInvariant cap s'"
proof (induction sched arbitrary: s)
  case Nil
  then show ?case by simp
next
  case (Cons k ks)
  from Cons.prems(2) obtain s1 where 1: "stepThread cap k s = Some s1"
    and 2: "runSchedule cap ks s1 = Some s'"
    by (auto split: option.splits)
  from Cons.IH[OF gateInvariant_step[OF Cons.prems(1) 1] 2] show ?case .
qed

lemma gateInvariant_start:
  assumes "\<forall>evs\<in>set programs. gated evs"
  shows "gateInvariant cap (startThreads programs)"
proof -
  have i: "\<forall>t\<in>set (map (\<lambda>evs. (evs, False)) programs). idle t"
    using assms unfolding idle_def by auto
  then have "filter holding (map (\<lambda>evs. (evs, False)) programs) = []"
    using idle_not_holding by (simp add: filter_empty_conv)
  with i show ?thesis
    unfolding gateInvariant_def startThreads_def by auto
qed

lemma gateInvariant_inFlight:
  assumes "gateInvariant cap s"
  shows "inFlight s \<le> cap DataGate"
proof -
  have "fetching t \<longrightarrow> holding t" if "t \<in> set (fst s)" for t
    using assms that idle_not_fetching unfolding gateInvariant_def by blast
  then have "length (filter fetching (fst s)) \<le> length (filter holding (fst s))"
    by (induction "fst s" arbitrary: s) (auto simp: le_SucI)
  with assms show ?thesis unfolding gateInvariant_def inFlight_def by simp
qed

lemma gated_threads_bounded:
  assumes "\<forall>evs\<in>set programs. gated evs"
    and "runSchedule cap sched (startThreads programs) = Some s"
  shows "inFlight s \<le> cap DataGate"
  using gateInvariant_inFlight[OF gateInvariant_run[OF gateInvariant_start[OF assms(1)] assms(2)]] .

lemma customNamespaceWorker_gated:
  "gated (bw_events (customNamespaceWorker client job qs M i))"
  unfolding gated_def customNamespaceWorker_def
  by (auto simp: Let_def noGates_def split: sum.splits intro: exI[of _ "[]"])

lemma scrapeStaticWorker_gated:
  "gated (sw_events (scrapeStaticWorker h resource region accountId client metric))"
  unfolding gated_def scrapeStaticWorker_def
  by (auto simp: Let_def noGates_def)

text \<open>The workers of the CustomNamespace unit and of the Static unit are gated, so in
  every interleaving of them at most as many data-fetch calls are in flight as the data
  gate has capacity.\<close>

lemma units_respect_data_gate:
  "(\<forall>ws. ur_spawned (scrapeCustomNamespaceJobUsingMetricData h rnd customNamespaceJob region
              accountId clientCloudwatch M order) = Some ws
          \<longrightarrow> runSchedule cap sched (startThreads (map bw_events ws)) = Some s
          \<longrightarrow> inFlight s \<le> cap DataGate)
   \<and> (runSchedule cap sched (startThreads (map sw_events (sr_workers
          (scrapeStaticJob h resource region accountId clientCloudwatch order)))) = Some s'
          \<longrightarrow> inFlight s' \<le> cap DataGate)"
proof (intro conjI allI impI)
  fix ws
  assume sp: "ur_spawned (scrapeCustomNamespaceJobUsingMetricData h rnd customNamespaceJob
      region accountId clientCloudwatch M order) = Some ws"
    and run: "runSchedule cap sched (startThreads (map bw_events ws)) = Some s"
  let ?qs = "snd (getMetricDataForQueriesForCustomNamespace h rnd customNamespaceJob region
      accountId clientCloudwatch)"
  let ?worker = "customNamespaceWorker clientCloudwatch customNamespaceJob ?qs M"
  have "set ws \<subseteq> range ?worker"
  proof (cases "?qs = []")
    case True
    with sp show ?thesis
      unfolding scrapeCustomNamespaceJobUsingMetricData_def by (auto simp: Let_def)
  next
    case False
    with sp have "spawnBatches ?worker M (int (length ?qs)) 0 [] = Some ws"
      unfolding scrapeCustomNamespaceJobUsingMetricData_def by (simp add: Let_def)
    from spawnBatches_range[OF this] show ?thesis by simp
  qed
  then have "\<forall>evs\<in>set (map bw_events ws). gated evs"
    using customNamespaceWorker_gated by auto
  from gated_threads_bounded[OF this run] show "inFlight s \<le> cap DataGate" .
next
  assume run: "runSchedule cap sched (startThreads (map sw_events (sr_workers
          (scrapeStaticJob h resource region accountId clientCloudwatch order)))) = Some s'"
  have "\<forall>evs\<in>set (map sw_events (sr_workers
          (scrapeStaticJob h resource region accountId clientCloudwatch order))). gated evs"
    using scrapeStaticWorker_gated by (auto simp: scrapeStaticJob_def Let_def)
  from gated_threads_bounded[OF this run] show "inFlight s' \<le> cap DataGate" .
qed

text \<open>Claim C3 does not hold of the code. With a data gate of capacity \<open>1\<close>, the two
  workers of the Discovery job above can both issue their call: the schedule that lets
  each of them make one step reaches a state with two data-fetch calls in flight. The
  same schedule is not possible for the two workers of the CustomNamespace unit, where
  the second worker blocks at the gate.\<close>

theorem discovery_exceeds_data_gate:
  "ur_spawned (scrapeDiscoveryJobUsingMetricData exHelpers (exJob 0) ''eu-west-1''
       (Some ''123'') [] exTagging exCloudwatch 3 None [0, 1])
     = Some [discoveryWorker exCloudwatch (GetService exHelpers ''AWS/ELB'') 300 (exJob 0) None
               exDiscoveryQueries 3 0,
             discoveryWorker exCloudwatch (GetService exHelpers ''AWS/ELB'') 300 (exJob 0) None
               exDiscoveryQueries 3 3]
   \<and> map_option inFlight
        (runSchedule (\<lambda>g. 1) [0, 1]
           (startThreads (workerEvents (ur_spawned
              (scrapeDiscoveryJobUsingMetricData exHelpers (exJob 0) ''eu-west-1''
                 (Some ''123'') [] exTagging exCloudwatch 3 None [0, 1])))))
       = Some 2
   \<and> runSchedule (\<lambda>g. 1) [0, 1]
        (startThreads (workerEvents (ur_spawned
           (scrapeCustomNamespaceJobUsingMetricData exHelpers (\<lambda>n. n) exCustomNamespace
              ''eu-west-1'' (Some ''123'') exCloudwatch 3 [0, 1]))))
       = None"
proof -
  have len: "getMetricDataInputLength exHelpers (exJob 0) = 300"
    by (simp add: getMetricDataInputLength_def exHelpers_def exJob_def exMetric_def)
  have svc: "GetService exHelpers ''AWS/ELB''
      = \<lparr>sf_Namespace = ''AWS/ELB'', sf_DimensionRegexps = []\<rparr>"
    by (simp add: exHelpers_def)
  have sp: "ur_spawned (scrapeDiscoveryJobUsingMetricData exHelpers (exJob 0) ''eu-west-1''
       (Some ''123'') [] exTagging exCloudwatch 3 None [0, 1])
     = Some [discoveryWorker exCloudwatch (GetService exHelpers ''AWS/ELB'') 300 (exJob 0) None
               exDiscoveryQueries 3 0,
             discoveryWorker exCloudwatch (GetService exHelpers ''AWS/ELB'') 300 (exJob 0) None
               exDiscoveryQueries 3 3]"
    using exDiscovery_spawned[of 0] by (simp add: len svc)
  have d: "map_option inFlight
        (runSchedule (\<lambda>g. 1) [0, 1]
           (startThreads (workerEvents (ur_spawned
              (scrapeDiscoveryJobUsingMetricData exHelpers (exJob 0) ''eu-west-1''
                 (Some ''123'') [] exTagging exCloudwatch 3 None [0, 1])))))
       = Some 2"
    unfolding sp
    by (simp add: workerEvents_def exDiscovery_worker_events startThreads_def stepThread_def
        isCall_def inFlight_def fetching_def isDataFetch_def)
  have qs: "length (snd (getMetricDataForQueriesForCustomNamespace exHelpers (\<lambda>n. n)
      exCustomNamespace ''eu-west-1'' (Some ''123'') exCloudwatch)) = 4"
    by (rule exCustom_queries)
  then have ne: "snd (getMetricDataForQueriesForCustomNamespace exHelpers (\<lambda>n. n)
      exCustomNamespace ''eu-west-1'' (Some ''123'') exCloudwatch) \<noteq> []"
    by auto
  have ev: "\<exists>rest. bw_events (customNamespaceWorker client job qs M i) = Acquire DataGate # rest"
    for client job qs M i
    unfolding customNamespaceWorker_def by (simp add: Let_def split: sum.splits)
  have c: "runSchedule (\<lambda>g. 1) [0, 1]
        (startThreads (workerEvents (ur_spawned
           (scrapeCustomNamespaceJobUsingMetricData exHelpers (\<lambda>n. n) exCustomNamespace
              ''eu-west-1'' (Some ''123'') exCloudwatch 3 [0, 1]))))
       = None"
  proof -
    let ?qs = "snd (getMetricDataForQueriesForCustomNamespace exHelpers (\<lambda>n. n)
      exCustomNamespace ''eu-west-1'' (Some ''123'') exCloudwatch)"
    let ?w = "customNamespaceWorker exCloudwatch exCustomNamespace ?qs 3"
    have "ur_spawned (scrapeCustomNamespaceJobUsingMetricData exHelpers (\<lambda>n. n)
        exCustomNamespace ''eu-west-1'' (Some ''123'') exCloudwatch 3 [0, 1])
        = Some [?w 0, ?w 3]"
      unfolding scrapeCustomNamespaceJobUsingMetricData_def
      by (simp add: Let_def qs ne spawnBatches.simps wrap64_def)
    moreover obtain r0 r3 where "bw_events (?w 0) = Acquire DataGate # r0"
      "bw_events (?w 3) = Acquire DataGate # r3"
      using ev by metis
    ultimately show ?thesis
      by (simp add: workerEvents_def startThreads_def stepThread_def)
  qed
  from sp d c show ?thesis by blast
qed

section \<open>Abandoning a Discovery triple\<close>

text \<open>Claim C4. When the resource lookup of a Discovery triple fails or returns no
  resource, the triple contributes no resources and no queries, it spawns no worker, and
  its goroutine performs exactly the identity call, the gated resource lookup and one log
  entry: no catalog discovery and no data fetch.\<close>

theorem discovery_abandonment:
  assumes "callerIdentity cache role = Account a"
    and "GetTagging cache region role job region = (resources, err)"
    and "err \<noteq> None \<or> resources = []"
  shows "t_outcome (discoveryTriple h cfg M cache order job region role) = Returns ([], [])
     \<and> t_workers (discoveryTriple h cfg M cache order job region role) = []
     \<and> t_events (discoveryTriple h cfg M cache order job region role)
         = [GetCallerIdentity role, Acquire TagGate, TagGet region, Release TagGate,
            if err \<noteq> None then LogError ''Couldn't describe resources''
            else LogInfo ''No tagged resources made it through filtering'']"
  using assms
  unfolding discoveryTriple_def scrapeDiscoveryJobUsingMetricData_def workerEvents_def
  by (auto simp: Let_def)

theorem discovery_abandonment_witness:
  "callerIdentity (exCache (\<lambda>job region. ([], None))) exRole
     = Account ''123''
   \<and> t_outcome (discoveryTriple exHelpers exConf 3
        (exCache (\<lambda>job region. ([], None))) [0, 1] (exJob 0)
        ''eu-west-1'' exRole) = Returns ([], [])
   \<and> t_events (discoveryTriple exHelpers exConf 3
        (exCache (\<lambda>job region. ([], None))) [0, 1] (exJob 0)
        ''eu-west-1'' exRole)
       = [GetCallerIdentity exRole, Acquire TagGate, TagGet ''eu-west-1'', Release TagGate,
          LogInfo ''No tagged resources made it through filtering'']"
proof -
  let ?cache = "exCache (\<lambda>job region. ([], None))"
  have i: "callerIdentity ?cache exRole = Account ''123''"
    by (simp add: callerIdentity_def exCache_def exIdentity_def exRole_def exDenied_def)
  have t: "GetTagging ?cache ''eu-west-1'' exRole (exJob 0) ''eu-west-1'' = ([], None)"
    by (simp add: exCache_def)
  from discovery_abandonment[OF i t, of exHelpers exConf 3 "[0, 1]"] i
  show ?thesis by simp
qed

section \<open>Properties of the Static unit\<close>

lemma mset_concat_map:
  "mset (concat (map f xs)) = (\<Sum>x\<in>#mset xs. mset (f x))"
  by (induction xs) simp_all

lemma inCompletionOrder_mset:
  assumes "mset order = mset [0..<length outs]"
  shows "mset (inCompletionOrder order outs) = mset (concat outs)"
proof -
  let ?f = "\<lambda>k. if k < length outs then outs ! k else []"
  have "mset (inCompletionOrder order outs) = (\<Sum>x\<in>#mset order. mset (?f x))"
    unfolding inCompletionOrder_def by (rule mset_concat_map)
  also have "\<dots> = (\<Sum>x\<in>#mset [0..<length outs]. mset (?f x))"
    using assms by simp
  also have "\<dots> = mset (concat (map ?f [0..<length outs]))"
    by (rule mset_concat_map[symmetric])
  also have "map ?f [0..<length outs] = outs"
    by (rule nth_equalityI) simp_all
  finally show ?thesis .
qed

text \<open>Claim C9. The Static unit spawns one worker per metric definition; each worker
  acquires the data gate, issues one statistics fetch for its metric alone and releases
  the gate; no worker touches the tag gate; a worker appends its query (with the fetched
  points) exactly when the fetch returned a point list that is not \<^verbatim>\<open>nil\<close>; and
  the unit returns what the workers appended, in completion order.\<close>

theorem static_unit_workers:
  fixes h resource region accountId clientCloudwatch order
  defines "run \<equiv> scrapeStaticJob h resource region accountId clientCloudwatch order"
  defines "req \<equiv> \<lambda>metric. createGetMetricStatisticsInput
                     (createStaticDimensions h (s_Dimensions resource)) (s_Namespace resource)
                     metric"
  shows "length (sr_workers run) = length (s_Metrics resource)
     \<and> (\<forall>k<length (s_Metrics resource).
           sw_events (sr_workers run ! k)
             = [Acquire DataGate, GetMetricStatistics (req (s_Metrics resource ! k)),
                Release DataGate]
           \<and> (sw_appended (sr_workers run ! k) \<noteq> [])
               = (get clientCloudwatch (req (s_Metrics resource ! k)) \<noteq> None)
           \<and> length (sw_appended (sr_workers run ! k)) \<le> 1
           \<and> (\<forall>data\<in>set (sw_appended (sr_workers run ! k)).
                 Points data = get clientCloudwatch (req (s_Metrics resource ! k))
                 \<and> Metric data = Some (m_Name (s_Metrics resource ! k))))
     \<and> (\<forall>w\<in>set (sr_workers run). \<forall>ev\<in>set (sw_events w).
           ev \<noteq> Acquire TagGate \<and> ev \<noteq> Release TagGate)
     \<and> (mset order = mset [0..<length (s_Metrics resource)] \<longrightarrow>
           mset (sr_return run) = mset (concat (map sw_appended (sr_workers run))))"
proof (intro conjI)
  show "length (sr_workers run) = length (s_Metrics resource)"
    by (simp add: run_def scrapeStaticJob_def Let_def)
  show "\<forall>k<length (s_Metrics resource).
           sw_events (sr_workers run ! k)
             = [Acquire DataGate, GetMetricStatistics (req (s_Metrics resource ! k)),
                Release DataGate]
           \<and> (sw_appended (sr_workers run ! k) \<noteq> [])
               = (get clientCloudwatch (req (s_Metrics resource ! k)) \<noteq> None)
           \<and> length (sw_appended (sr_workers run ! k)) \<le> 1
           \<and> (\<forall>data\<in>set (sw_appended (sr_workers run ! k)).
                 Points data = get clientCloudwatch (req (s_Metrics resource ! k))
                 \<and> Metric data = Some (m_Name (s_Metrics resource ! k)))"
    by (simp add: run_def req_def scrapeStaticJob_def scrapeStaticWorker_def Let_def)
  show "\<forall>w\<in>set (sr_workers run). \<forall>ev\<in>set (sw_events w).
           ev \<noteq> Acquire TagGate \<and> ev \<noteq> Release TagGate"
    by (auto simp: run_def scrapeStaticJob_def scrapeStaticWorker_def Let_def)
  show "mset order = mset [0..<length (s_Metrics resource)] \<longrightarrow>
           mset (sr_return run) = mset (concat (map sw_appended (sr_workers run)))"
  proof
    assume "mset order = mset [0..<length (s_Metrics resource)]"
    then have "mset order = mset [0..<length (map sw_appended (sr_workers run))]"
      by (simp add: run_def scrapeStaticJob_def Let_def)
    from inCompletionOrder_mset[OF this] show
      "mset (sr_return run) = mset (concat (map sw_appended (sr_workers run)))"
      by (simp add: run_def scrapeStaticJob_def Let_def)
  qed
qed

theorem static_unit_workers_witness:
  "(1::nat) < length (s_Metrics exStatic)
   \<and> mset [1, 0] = mset [0..<length (s_Metrics exStatic)]
   \<and> sw_events (sr_workers (scrapeStaticJob exHelpers exStatic ''eu-west-1'' (Some ''123'')
        exCloudwatch [1, 0]) ! 1)
       = [Acquire DataGate,
          GetMetricStatistics (createGetMetricStatisticsInput [(''QueueName'', ''q'')]
            ''AWS/SQS'' (exMetric ''Age'')),
          Release DataGate]
   \<and> sw_appended (sr_workers (scrapeStaticJob exHelpers exStatic ''eu-west-1'' (Some ''123'')
        exCloudwatch [1, 0]) ! 1) \<noteq> []
   \<and> mset (sr_return (scrapeStaticJob exHelpers exStatic ''eu-west-1'' (Some ''123'')
        exCloudwatch [1, 0]))
       = mset (concat (map sw_appended (sr_workers (scrapeStaticJob exHelpers exStatic
           ''eu-west-1'' (Some ''123'') exCloudwatch [1, 0]))))"
proof -
  have l: "(1::nat) < length (s_Metrics exStatic)" by (simp add: exStatic_def)
  have m: "mset [1, 0] = mset [0..<length (s_Metrics exStatic)]"
    by (simp add: exStatic_def upt_rec)
  have g: "get exCloudwatch r \<noteq> None" for r by (simp add: exCloudwatch_def)
  have d: "createStaticDimensions exHelpers (s_Dimensions exStatic) = [(''QueueName'', ''q'')]"
    "s_Namespace exStatic = ''AWS/SQS''" "s_Metrics exStatic ! Suc 0 = exMetric ''Age''"
    by (simp_all add: exHelpers_def exStatic_def)
  from static_unit_workers[of exHelpers exStatic "''eu-west-1''" "Some ''123''" exCloudwatch
      "[1, 0]"] l m g
  show ?thesis by (simp add: d)
qed

section \<open>Identity resolution\<close>

lemma callerIdentity_Abandon:
  assumes "snd (GetSTS cache role) \<noteq> None \<or> fst (GetSTS cache role) = Some None"
  shows "callerIdentity cache role = Abandon"
  using assms unfolding callerIdentity_def
  by (cases "GetSTS cache role") (auto split: option.splits)

lemma runTriple_Abandon:
  assumes "callerIdentity cache (tripleRole t) = Abandon"
  shows "runTriple h cfg M cache order rnd t
     = \<lparr>t_events = [GetCallerIdentity (tripleRole t), LogError ''Couldn't get account Id''],
        t_workers = [], t_outcome = Returns ([], [])\<rparr>"
  using assms
  by (cases t)
    (simp_all add: discoveryTriple_def staticTriple_def customNamespaceTriple_def abandoned_def)

lemma runTriples_length: "length (runTriples h cfg M cache sched n ts) = length ts"
  by (induction ts arbitrary: n) simp_all

lemma runTriples_nth:
  "k < length ts \<Longrightarrow>
   runTriples h cfg M cache sched n ts ! k
     = runTriple h cfg M cache (workerOrder sched (n + k)) (randInt sched (n + k)) (ts ! k)"
proof (induction ts arbitrary: n k)
  case Nil
  then show ?case by simp
next
  case (Cons t ts)
  then show ?case by (cases k) simp_all
qed

lemma firstFailure_None:
  "\<forall>r\<in>set runs. \<exists>c. t_outcome r = Returns c \<Longrightarrow> firstFailure runs = None"
  by (induction runs) auto

lemma firstFailure_Panics:
  "\<exists>r\<in>set runs. \<exists>p. t_outcome r = Panics p \<Longrightarrow> \<exists>p. firstFailure runs = Some (Some p)"
proof (induction runs)
  case Nil
  then show ?case by simp
next
  case (Cons r runs)
  show ?case
  proof (cases "t_outcome r")
    case (Returns c)
    with Cons show ?thesis by auto
  next
    case (Panics p)
    then show ?thesis by simp
  next
    case NoReturn
    with Cons.prems have "\<exists>r\<in>set runs. \<exists>p. t_outcome r = Panics p" by auto
    from Cons.IH[OF this] NoReturn show ?thesis by auto
  qed
qed

lemma firstFailure_NoReturn:
  "\<forall>r\<in>set runs. \<forall>p. t_outcome r \<noteq> Panics p \<Longrightarrow> \<exists>r\<in>set runs. t_outcome r = NoReturn \<Longrightarrow>
   firstFailure runs = Some None"
proof (induction runs)
  case Nil
  then show ?case by simp
next
  case (Cons r runs)
  have nop: "\<forall>r\<in>set runs. \<forall>p. t_outcome r \<noteq> Panics p" using Cons.prems(1) by simp
  show ?case
  proof (cases "t_outcome r")
    case (Returns c)
    with Cons.prems(2) have "\<exists>r\<in>set runs. t_outcome r = NoReturn" by auto
    from Cons.IH[OF nop this] Returns show ?thesis by simp
  next
    case (Panics p)
    with Cons.prems(1) show ?thesis by simp
  next
    case NoReturn
    show ?thesis
    proof (cases "\<exists>r\<in>set runs. t_outcome r = NoReturn")
      case True
      from Cons.IH[OF nop this] NoReturn show ?thesis by simp
    next
      case False
      with nop have "\<forall>r\<in>set runs. \<exists>c. t_outcome r = Returns c"
        by (metis outcome.exhaust)
      from firstFailure_None[OF this] NoReturn show ?thesis by simp
    qed
  qed
qed

lemma concat_map_filter_others:
  assumes "\<And>j. \<not> P j \<Longrightarrow> g j = []" and "\<And>j. P j \<Longrightarrow> g j = g' j"
  shows "concat (map g order) = concat (map g' (filter P order))"
  using assms by (induction order) auto

text \<open>Claim C10. When the identity call of a triple, of any kind, returns an error or a
  result without an account, the goroutine of the triple performs the call and one log
  entry and nothing else, spawns no worker and contributes nothing; the run of every
  triple is that of its own job, role and region; when every other triple returns, what
  \<^verbatim>\<open>ScrapeAwsData\<close> returns is exactly what the other triples contribute, put together
  in completion order, and the cache is cleared; and \<^verbatim>\<open>ScrapeAwsData\<close> panics or
  never returns only when another triple does.\<close>

theorem identity_failure_isolated:
  fixes h cfg M cache sched k
  defines "run \<equiv> ScrapeAwsData h cfg M cache sched"
  defines "role \<equiv> tripleRole (spawnTriples cfg ! k)"
  defines "own \<equiv> \<lambda>j. runTriple h cfg M cache (workerOrder sched j) (randInt sched j)
                        (spawnTriples cfg ! j)"
  defines "others \<equiv> filter (\<lambda>j. j < length (spawnTriples cfg) \<and> j \<noteq> k) (tripleOrder sched)"
  assumes "k < length (spawnTriples cfg)"
    and "snd (GetSTS cache role) \<noteq> None \<or> fst (GetSTS cache role) = Some None"
  shows "sa_triples run ! k
           = \<lparr>t_events = [GetCallerIdentity role, LogError ''Couldn't get account Id''],
              t_workers = [], t_outcome = Returns ([], [])\<rparr>
     \<and> (\<forall>j<length (spawnTriples cfg). sa_triples run ! j = own j)
     \<and> (\<forall>c. (\<forall>j<length (spawnTriples cfg). j \<noteq> k \<longrightarrow> t_outcome (own j) = Returns (c j)) \<longrightarrow>
            sa_return run = Returns (concat (map (\<lambda>j. fst (c j)) others),
                                     concat (map (\<lambda>j. snd (c j)) others))
          \<and> sa_events run = [CacheRefresh, CacheClear])
     \<and> ((\<exists>j<length (spawnTriples cfg). j \<noteq> k \<and> (\<exists>p. t_outcome (own j) = Panics p)) \<longrightarrow>
            (\<exists>p. sa_return run = Panics p))
     \<and> ((\<forall>j<length (spawnTriples cfg). \<forall>p. t_outcome (own j) \<noteq> Panics p)
          \<and> (\<exists>j<length (spawnTriples cfg). j \<noteq> k \<and> t_outcome (own j) = NoReturn) \<longrightarrow>
            sa_return run = NoReturn)"
proof -
  let ?n = "length (spawnTriples cfg)"
  let ?runs = "runTriples h cfg M cache sched 0 (spawnTriples cfg)"
  have runs: "sa_triples run = ?runs"
    by (simp add: run_def ScrapeAwsData_def Let_def)
  have ret: "sa_return run = aggregate (tripleOrder sched) ?runs"
    by (simp add: run_def ScrapeAwsData_def Let_def)
  have lenr: "length ?runs = ?n" by (rule runTriples_length)
  have each: "\<forall>j<?n. sa_triples run ! j = own j"
    using runTriples_nth[of _ "spawnTriples cfg" h cfg M cache sched 0]
    by (simp add: runs own_def)
  have "callerIdentity cache role = Abandon"
    using assms(6) by (rule callerIdentity_Abandon)
  from runTriple_Abandon[OF this[unfolded role_def]]
  have ownk: "own k
           = \<lparr>t_events = [GetCallerIdentity role, LogError ''Couldn't get account Id''],
              t_workers = [], t_outcome = Returns ([], [])\<rparr>"
    by (simp add: role_def own_def)
  with each assms(5) have k: "sa_triples run ! k
           = \<lparr>t_events = [GetCallerIdentity role, LogError ''Couldn't get account Id''],
              t_workers = [], t_outcome = Returns ([], [])\<rparr>"
    by simp
  have outk: "t_outcome (own k) = Returns ([], [])" by (simp add: ownk)
  have setruns: "set ?runs = own ` {..<?n}"
  proof -
    have "?runs = map own [0..<?n]"
      using each lenr by (intro nth_equalityI) (simp_all add: runs)
    then show ?thesis by (simp add: atLeast0LessThan)
  qed
  have returns: "sa_return run = Returns (concat (map (\<lambda>j. fst (c j)) others),
                                     concat (map (\<lambda>j. snd (c j)) others))
          \<and> sa_events run = [CacheRefresh, CacheClear]"
    if c: "\<forall>j<?n. j \<noteq> k \<longrightarrow> t_outcome (own j) = Returns (c j)" for c
  proof -
    have all: "\<forall>r\<in>set ?runs. \<exists>c. t_outcome r = Returns c"
      unfolding setruns using c outk by (metis imageE lessThan_iff)
    have ff: "firstFailure ?runs = None" using all by (rule firstFailure_None)
    have contr: "contribution (?runs ! j) = (if j = k then ([], []) else c j)" if "j < ?n" for j
      using that each c outk by (simp add: runs contribution_def)
    have a: "inCompletionOrder (tripleOrder sched) (map (fst \<circ> contribution) ?runs)
        = concat (map (\<lambda>j. fst (c j)) others)"
      unfolding inCompletionOrder_def others_def
      by (rule concat_map_filter_others) (auto simp: lenr contr)
    have b: "inCompletionOrder (tripleOrder sched) (map (snd \<circ> contribution) ?runs)
        = concat (map (\<lambda>j. snd (c j)) others)"
      unfolding inCompletionOrder_def others_def
      by (rule concat_map_filter_others) (auto simp: lenr contr)
    have "aggregate (tripleOrder sched) ?runs
        = Returns (concat (map (\<lambda>j. fst (c j)) others), concat (map (\<lambda>j. snd (c j)) others))"
      by (simp add: aggregate_def ff a b)
    then show ?thesis
      by (simp add: run_def ScrapeAwsData_def Let_def)
  qed
  have panics: "\<exists>p. sa_return run = Panics p"
    if "\<exists>j<?n. j \<noteq> k \<and> (\<exists>p. t_outcome (own j) = Panics p)"
  proof -
    from that have "\<exists>r\<in>set ?runs. \<exists>p. t_outcome r = Panics p"
      unfolding setruns by auto
    from firstFailure_Panics[OF this] show ?thesis
      by (auto simp: ret aggregate_def)
  qed
  have never: "sa_return run = NoReturn"
    if "\<forall>j<?n. \<forall>p. t_outcome (own j) \<noteq> Panics p"
      and "\<exists>j<?n. j \<noteq> k \<and> t_outcome (own j) = NoReturn"
  proof -
    from that have "\<forall>r\<in>set ?runs. \<forall>p. t_outcome r \<noteq> Panics p"
      "\<exists>r\<in>set ?runs. t_outcome r = NoReturn"
      unfolding setruns by auto
    from firstFailure_NoReturn[OF this] show ?thesis
      by (simp add: ret aggregate_def)
  qed
  from k each returns panics never show ?thesis by blast
qed

lemma exCloudwatch_getMetricData:
  "getMetricData exCloudwatch req
     = Some (map (\<lambda>q. \<lparr>r_Id = MetricID q, r_Values = [Some 1], r_Timestamps = [Some 10]\<rparr>)
               (gmd_Queries req))"
  by (simp add: exCloudwatch_def)

lemma exCustom_queries_eq:
  "snd (getMetricDataForQueriesForCustomNamespace exHelpers (\<lambda>n. n) exCustomNamespace
      ''eu-west-1'' (Some ''123'') exCloudwatch)
   = [exCustomQuery ''Latency'' ''id_0'' ''Sum'', exCustomQuery ''Latency'' ''id_1'' ''Average'',
      exCustomQuery ''Errors'' ''id_2'' ''Sum'', exCustomQuery ''Errors'' ''id_3'' ''Average'']"
  by (simp add: getMetricDataForQueriesForCustomNamespace_def exCustomNamespace_def
      exCloudwatch_def exMetric_def exHelpers_def exCustomQuery_def Sprintf_id_def decimal_digits)

lemma exIdentity_exRole: "callerIdentity (exCache tagging) exRole = Account ''123''"
  by (simp add: callerIdentity_def exCache_def exIdentity_def exRole_def exDenied_def)

lemma exCustom_outcome:
  "t_outcome (customNamespaceTriple exHelpers 3 (exCache exTagging) [1, 0] (\<lambda>n. n)
      exCustomNamespace ''eu-west-1'' exRole)
   = Returns ([], [exSlot (exCustomQuery ''Errors'' ''id_3'' ''Average'') 1 10,
                   exSlot (exCustomQuery ''Latency'' ''id_0'' ''Sum'') 1 10,
                   exSlot (exCustomQuery ''Latency'' ''id_1'' ''Average'') 1 10,
                   exSlot (exCustomQuery ''Errors'' ''id_2'' ''Sum'') 1 10])"
proof -
  have cl: "GetCloudwatch (exCache exTagging) ''eu-west-1'' exRole = exCloudwatch"
    by (simp add: exCache_def)
  show ?thesis
    by (simp add: customNamespaceTriple_def exIdentity_exRole cl
      scrapeCustomNamespaceJobUsingMetricData_def exCustom_queries_eq
      Let_def spawnBatches.simps wrap64_def partitionCount_def joinBatches_def
      customNamespaceWorker_def batchInput_def exCloudwatch_getMetricData
      createGetMetricDataInput_def mergeResponse_def mergeStep_def
      setResult_def exCustomQuery_def customNamespaceQuery_def exSlot_def
      appendedBy_def inCompletionOrder_def)
qed

lemma exDiscovery_outcome:
  "t_outcome (discoveryTriple exHelpers exConf 3 (exCache exTagging) [1, 0] (exJob 0)
      ''eu-west-1'' exRole)
   = Returns ([exResource],
        [exSlot (exQuery ''ErrorsAverage'') 1 10, exSlot (exQuery ''LatencySum'') 1 10,
         exSlot (exQuery ''LatencyAverage'') 1 10, exSlot (exQuery ''ErrorsSum'') 1 10])"
proof -
  have cl: "GetCloudwatch (exCache exTagging) ''eu-west-1'' exRole = exCloudwatch"
    "GetTagging (exCache exTagging) ''eu-west-1'' exRole = exTagging"
    "Discovery_ExportedTagsOnMetrics exConf = []"
    by (simp_all add: exCache_def exConf_def)
  have t: "exTagging (exJob 0) ''eu-west-1'' = ([exResource], None)"
    by (simp add: exTagging_def)
  have q: "snd (getMetricDataForQueries exHelpers (exJob 0)
      (GetService exHelpers (j_Type (exJob 0))) ''eu-west-1'' (Some ''123'') [] exCloudwatch
      [exResource]) = exDiscoveryQueries"
    by (simp add: getMetricDataForQueries_def exJob_def exCloudwatch_def exMetric_def
      exHelpers_def exDiscoveryQueries_def)
  show ?thesis
    by (simp add: discoveryTriple_def exIdentity_exRole cl
      scrapeDiscoveryJobUsingMetricData_def t q
      Let_def spawnBatches.simps wrap64_def partitionCount_def joinBatches_def
      discoveryWorker_def batchInput_def exCloudwatch_getMetricData
      createGetMetricDataInput_def mergeResponse_def mergeStep_def
      setResult_def exDiscoveryQueries_def exQuery_def exSlot_def
      appendedBy_def inCompletionOrder_def)
qed

theorem identity_failure_isolated_witness:
  "(1::nat) < length (spawnTriples exConf)
   \<and> snd (GetSTS (exCache exTagging) (tripleRole (spawnTriples exConf ! 1))) \<noteq> None
   \<and> sa_triples (ScrapeAwsData exHelpers exConf 3 (exCache exTagging) exSchedule) ! 1
       = \<lparr>t_events = [GetCallerIdentity exDenied, LogError ''Couldn't get account Id''],
          t_workers = [], t_outcome = Returns ([], [])\<rparr>
   \<and> t_outcome (sa_triples (ScrapeAwsData exHelpers exConf 3 (exCache exTagging) exSchedule)
        ! 0)
       = Returns ([exResource],
           [exSlot (exQuery ''ErrorsAverage'') 1 10, exSlot (exQuery ''LatencySum'') 1 10,
            exSlot (exQuery ''LatencyAverage'') 1 10, exSlot (exQuery ''ErrorsSum'') 1 10])
   \<and> t_outcome (sa_triples (ScrapeAwsData exHelpers exConf 3 (exCache exTagging) exSchedule)
        ! 2)
       = Returns ([], [exSlot (exCustomQuery ''Errors'' ''id_3'' ''Average'') 1 10,
                       exSlot (exCustomQuery ''Latency'' ''id_0'' ''Sum'') 1 10,
                       exSlot (exCustomQuery ''Latency'' ''id_1'' ''Average'') 1 10,
                       exSlot (exCustomQuery ''Errors'' ''id_2'' ''Sum'') 1 10])
   \<and> sa_return (ScrapeAwsData exHelpers exConf 3 (exCache exTagging) exSchedule)
       = Returns ([exResource],
           [exSlot (exCustomQuery ''Errors'' ''id_3'' ''Average'') 1 10,
            exSlot (exCustomQuery ''Latency'' ''id_0'' ''Sum'') 1 10,
            exSlot (exCustomQuery ''Latency'' ''id_1'' ''Average'') 1 10,
            exSlot (exCustomQuery ''Errors'' ''id_2'' ''Sum'') 1 10,
            exSlot (exQuery ''ErrorsAverage'') 1 10, exSlot (exQuery ''LatencySum'') 1 10,
            exSlot (exQuery ''LatencyAverage'') 1 10, exSlot (exQuery ''ErrorsSum'') 1 10])
   \<and> sa_events (ScrapeAwsData exHelpers exConf 3 (exCache exTagging) exSchedule)
       = [CacheRefresh, CacheClear]"
proof -
  let ?run = "ScrapeAwsData exHelpers exConf 3 (exCache exTagging) exSchedule"
  let ?D = "([exResource],
           [exSlot (exQuery ''ErrorsAverage'') 1 10, exSlot (exQuery ''LatencySum'') 1 10,
            exSlot (exQuery ''LatencyAverage'') 1 10, exSlot (exQuery ''ErrorsSum'') 1 10])"
  let ?C = "([]::TaggedResource list,
             [exSlot (exCustomQuery ''Errors'' ''id_3'' ''Average'') 1 10,
              exSlot (exCustomQuery ''Latency'' ''id_0'' ''Sum'') 1 10,
              exSlot (exCustomQuery ''Latency'' ''id_1'' ''Average'') 1 10,
              exSlot (exCustomQuery ''Errors'' ''id_2'' ''Sum'') 1 10])"
  let ?c = "\<lambda>j::nat. if j = 0 then ?D else ?C"
  let ?own = "\<lambda>j. runTriple exHelpers exConf 3 (exCache exTagging) (workerOrder exSchedule j)
                    (randInt exSchedule j) (spawnTriples exConf ! j)"
  have ts: "spawnTriples exConf
      = [DiscoveryTriple (exJob 0) ''eu-west-1'' exRole,
         StaticTriple exStatic ''eu-west-1'' exDenied,
         CustomNamespaceTriple exCustomNamespace ''eu-west-1'' exRole]"
    by (simp add: spawnTriples_def exConf_def exJob_def exStatic_def exCustomNamespace_def)
  have l: "(1::nat) < length (spawnTriples exConf)" by (simp add: ts)
  have r: "tripleRole (spawnTriples exConf ! 1) = exDenied" by (simp add: ts)
  have f: "snd (GetSTS (exCache exTagging) (tripleRole (spawnTriples exConf ! 1))) \<noteq> None"
    unfolding r by (simp add: exCache_def exIdentity_def)
  have s: "workerOrder exSchedule j = [1, 0]" "randInt exSchedule j = (\<lambda>n. n)"
    "tripleOrder exSchedule = [2, 0, 1]" for j
    by (simp_all add: exSchedule_def)
  have o0: "t_outcome (?own 0) = Returns ?D"
    unfolding s ts using exDiscovery_outcome by simp
  have o2: "t_outcome (?own 2) = Returns ?C"
    unfolding s ts using exCustom_outcome by simp
  have others: "\<forall>j<length (spawnTriples exConf). j \<noteq> 1 \<longrightarrow> t_outcome (?own j) = Returns (?c j)"
  proof (intro allI impI)
    fix j :: nat assume "j < length (spawnTriples exConf)" "j \<noteq> 1"
    then have "j = 0 \<or> j = 2" by (auto simp: ts)
    with o0 o2 show "t_outcome (?own j) = Returns (?c j)" by auto
  qed
  note T = identity_failure_isolated[OF l disjI1[OF f], of exHelpers 3 exSchedule]
  have k: "sa_triples ?run ! 1
       = \<lparr>t_events = [GetCallerIdentity exDenied, LogError ''Couldn't get account Id''],
          t_workers = [], t_outcome = Returns ([], [])\<rparr>"
    using T[THEN conjunct1] unfolding r .
  have e: "\<forall>j<length (spawnTriples exConf). sa_triples ?run ! j = ?own j"
    using T[THEN conjunct2, THEN conjunct1] .
  have "sa_triples ?run ! 0 = ?own 0" "sa_triples ?run ! 2 = ?own 2"
    using e by (simp_all add: ts)
  then have t0: "t_outcome (sa_triples ?run ! 0) = Returns ?D"
    and t2: "t_outcome (sa_triples ?run ! 2) = Returns ?C"
    using o0 o2 by simp_all
  have "sa_return ?run
      = Returns (concat (map (\<lambda>j. fst (?c j))
                   (filter (\<lambda>j. j < length (spawnTriples exConf) \<and> j \<noteq> 1)
                      (tripleOrder exSchedule))),
                 concat (map (\<lambda>j. snd (?c j))
                   (filter (\<lambda>j. j < length (spawnTriples exConf) \<and> j \<noteq> 1)
                      (tripleOrder exSchedule))))
      \<and> sa_events ?run = [CacheRefresh, CacheClear]"
    using T[THEN conjunct2, THEN conjunct2, THEN conjunct1, THEN spec, of ?c, THEN mp,
        OF others] .
  then have ret: "sa_return ?run
       = Returns ([exResource],
           [exSlot (exCustomQuery ''Errors'' ''id_3'' ''Average'') 1 10,
            exSlot (exCustomQuery ''Latency'' ''id_0'' ''Sum'') 1 10,
            exSlot (exCustomQuery ''Latency'' ''id_1'' ''Average'') 1 10,
            exSlot (exCustomQuery ''Errors'' ''id_2'' ''Sum'') 1 10,
            exSlot (exQuery ''ErrorsAverage'') 1 10, exSlot (exQuery ''LatencySum'') 1 10,
            exSlot (exQuery ''LatencyAverage'') 1 10, exSlot (exQuery ''ErrorsSum'') 1 10])
      \<and> sa_events ?run = [CacheRefresh, CacheClear]"
    by (simp add: s ts)
  show ?thesis
    by (intro conjI) (fact l f k t0 t2 ret[THEN conjunct1] ret[THEN conjunct2])+
qed

section \<open>Correlation ids of the CustomNamespace unit\<close>

lemma decimal_nonempty: "decimal n \<noteq> []"
  by (subst decimal.simps) simp

lemma digit_inj:
  assumes "char_of (48 + a) = (char_of (48 + b) :: char)" "a < 10" "b < 10"
  shows "a = (b::nat)"
proof -
  from assms(1) have "of_char (char_of (48 + a) :: char) = (of_char (char_of (48 + b) :: char) :: nat)"
    by simp
  then have "(48 + a) mod 256 = (48 + b) mod 256" by simp
  with assms(2,3) show ?thesis by simp
qed

lemma decimal_inj: "decimal m = decimal n \<Longrightarrow> m = n"
proof (induction m arbitrary: n rule: decimal.induct)
  case (1 m)
  show ?case
  proof (cases "m < 10")
    case True
    then have m: "decimal m = [char_of (48 + m)]" by (subst decimal.simps) simp
    show ?thesis
    proof (cases "n < 10")
      case n: True
      then have "decimal n = [char_of (48 + n)]" by (subst decimal.simps) simp
      with m "1.prems" have "char_of (48 + m) = (char_of (48 + n) :: char)" by simp
      then show ?thesis using True n by (rule digit_inj)
    next
      case False
      then have "decimal n = decimal (n div 10) @ [char_of (48 + n mod 10)]"
        by (subst decimal.simps) simp
      with m "1.prems" decimal_nonempty[of "n div 10"] show ?thesis
        by (cases "decimal (n div 10)") simp_all
    qed
  next
    case False
    then have m: "decimal m = decimal (m div 10) @ [char_of (48 + m mod 10)]"
      by (subst decimal.simps) simp
    show ?thesis
    proof (cases "n < 10")
      case True
      then have "decimal n = [char_of (48 + n)]" by (subst decimal.simps) simp
      with m "1.prems" decimal_nonempty[of "m div 10"] show ?thesis
        by (cases "decimal (m div 10)") simp_all
    next
      case n: False
      then have "decimal n = decimal (n div 10) @ [char_of (48 + n mod 10)]"
        by (subst decimal.simps) simp
      with m "1.prems" have eq: "decimal (m div 10) = decimal (n div 10)"
        and c: "char_of (48 + m mod 10) = (char_of (48 + n mod 10) :: char)" by simp_all
      from "1.IH"[OF False eq] have d: "m div 10 = n div 10" .
      from c have "m mod 10 = n mod 10" by (rule digit_inj) simp_all
      with d show ?thesis by (metis div_mult_mod_eq)
    qed
  qed
qed

lemma Sprintf_id_inj: "Sprintf_id m = Sprintf_id n \<Longrightarrow> m = n"
  unfolding Sprintf_id_def by (simp add: decimal_inj)

lemma minted_Nil: "minted rnd n [] n"
  by (simp add: minted_def)

lemma minted_append:
  assumes "minted rnd n ds1 n1" "minted rnd n1 ds2 n2"
  shows "minted rnd n (ds1 @ ds2) n2"
proof -
  have "[n..<n + length ds1 + length ds2] = [n..<n + length ds1] @ [n + length ds1..<n + length ds1 + length ds2]"
    by (rule upt_add_eq_append) simp
  with assms show ?thesis by (simp add: minted_def)
qed

lemma minted_statisticsLoop:
  "minted rnd n (fst (statisticsLoop rnd job region accountId metric cwMetric n sts))
     (snd (statisticsLoop rnd job region accountId metric cwMetric n sts))"
proof (induction sts arbitrary: n)
  case Nil
  then show ?case by (simp add: minted_Nil)
next
  case (Cons stats sts)
  let ?q = "customNamespaceQuery job region accountId metric cwMetric (Sprintf_id (rnd n)) stats"
  have one: "minted rnd n [?q] (Suc n)"
    by (simp add: minted_def customNamespaceQuery_def)
  from minted_append[OF one Cons.IH[of "Suc n"]] show ?case
    by (simp add: Let_def)
qed

lemma minted_catalogLoop:
  "minted rnd n (fst (catalogLoop h rnd job region accountId metric n cws))
     (snd (catalogLoop h rnd job region accountId metric n cws))"
proof (induction cws arbitrary: n)
  case Nil
  then show ?case by (simp add: minted_Nil)
next
  case (Cons cwMetric cws)
  show ?case
    using minted_append[OF minted_statisticsLoop Cons.IH] Cons.IH[of n]
    by (simp add: Let_def)
qed

lemma minted_customNamespaceMetricsLoop:
  "customNamespaceMetricsLoop h rnd job region accountId client n ms = (evs, ds, n')
   \<Longrightarrow> minted rnd n ds n'"
proof (induction ms arbitrary: n evs ds n')
  case Nil
  then show ?case by (simp add: minted_Nil)
next
  case (Cons metric ms)
  show ?case
  proof (cases "getFullMetricsList client (c_Namespace job) metric")
    case (Inl err)
    with Cons.prems obtain evs' where
      "customNamespaceMetricsLoop h rnd job region accountId client n ms = (evs', ds, n')"
      by (auto simp: Let_def split: prod.splits)
    then show ?thesis by (rule Cons.IH)
  next
    case (Inr metricsList)
    let ?m = "catalogLoop h rnd job region accountId metric n metricsList"
    from Inr Cons.prems obtain evs' ds' where
      r: "customNamespaceMetricsLoop h rnd job region accountId client (snd ?m) ms
            = (evs', ds', n')"
      and ds: "ds = fst ?m @ ds'"
      by (auto simp: Let_def split: prod.splits)
    from minted_append[OF minted_catalogLoop Cons.IH[OF r]] ds show ?thesis by simp
  qed
qed

lemma batchInput_window:
  assumes "batchInput qs M i = Inr input"
  shows "input = take (nat ((if wrap64 (i + M) > int (length qs) then int (length qs)
                             else wrap64 (i + M)) - i)) (drop (nat i) qs)"
  using assms unfolding batchInput_def Let_def by (simp split: if_splits)

lemma digit_seven: "char_of (55::nat) = CHR ''7''"
  by code_simp

text \<open>Claim C6 as stated fails: nothing makes the minted ids distinct. When the random
  source returns \<open>7\<close> at every call, the four queries of the example job all carry the
  id \<open>id_7\<close>, and with batch size \<open>4\<close> they are the slice of one worker.\<close>

theorem custom_namespace_ids_counterexample:
  "map_sum id (map MetricID)
     (bw_input (customNamespaceWorker exCloudwatch exCustomNamespace
        (snd (getMetricDataForQueriesForCustomNamespace exHelpers (\<lambda>n. 7) exCustomNamespace
                ''eu-west-1'' (Some ''123'') exCloudwatch)) 4 0))
     = Inr [Some ''id_7'', Some ''id_7'', Some ''id_7'', Some ''id_7'']
   \<and> \<not> distinct [Some ''id_7'', Some ''id_7'', Some ''id_7'', Some ''id_7'']"
  by (simp add: getMetricDataForQueriesForCustomNamespace_def exCustomNamespace_def
      exCloudwatch_def exMetric_def exHelpers_def customNamespaceWorker_def batchInput_def
      wrap64_def Let_def customNamespaceQuery_def Sprintf_id_def decimal.simps digit_seven)

text \<open>Claim C6, amended. The CustomNamespace unit mints the id of every query, one per
  catalog entry and statistic, from a call of the random source of its own: the id of
  query \<open>k\<close> is \<open>id_\<close> followed by the decimal digits of the value of call \<open>k\<close>. The
  ids of the queries are pairwise distinct exactly when these values are, and then the
  ids within every batch are pairwise distinct.\<close>

theorem custom_namespace_ids:
  fixes h rnd customNamespaceJob region accountId clientCloudwatch
  defines "qs \<equiv> snd (getMetricDataForQueriesForCustomNamespace h rnd customNamespaceJob region
                       accountId clientCloudwatch)"
  shows "map MetricID qs = map (\<lambda>k. Some (Sprintf_id (rnd k))) [0..<length qs]
     \<and> distinct (map MetricID qs) = inj_on rnd {..<length qs}
     \<and> (inj_on rnd {..<length qs} \<longrightarrow>
          (\<forall>M i input. batchInput qs M i = Inr input \<longrightarrow> distinct (map MetricID input)))"
proof -
  obtain evs ds n' where l: "customNamespaceMetricsLoop h rnd customNamespaceJob region
      accountId clientCloudwatch 0 (c_Metrics customNamespaceJob) = (evs, ds, n')"
    by (cases "customNamespaceMetricsLoop h rnd customNamespaceJob region
      accountId clientCloudwatch 0 (c_Metrics customNamespaceJob)") auto
  then have qs: "qs = ds"
    by (simp add: qs_def getMetricDataForQueriesForCustomNamespace_def)
  from minted_customNamespaceMetricsLoop[OF l]
  have ids: "map MetricID qs = map (\<lambda>k. Some (Sprintf_id (rnd k))) [0..<length qs]"
    by (simp add: minted_def qs)
  have "distinct (map (\<lambda>k. Some (Sprintf_id (rnd k))) [0..<length qs])
      = inj_on rnd {..<length qs}"
    by (auto simp: distinct_map inj_on_def atLeast0LessThan dest: Sprintf_id_inj)
  with ids have d: "distinct (map MetricID qs) = inj_on rnd {..<length qs}" by simp
  have b: "distinct (map MetricID input)"
    if "inj_on rnd {..<length qs}" "batchInput qs M i = Inr input" for M i input
  proof -
    let ?a = "nat ((if wrap64 (i + M) > int (length qs) then int (length qs)
                    else wrap64 (i + M)) - i)"
    from batchInput_window[OF that(2)] have "input = take ?a (drop (nat i) qs)" .
    then have "map MetricID input = take ?a (drop (nat i) (map MetricID qs))"
      by (simp only: take_map drop_map)
    moreover have "distinct (take ?a (drop (nat i) (map MetricID qs)))"
      using that(1) d by (intro distinct_take distinct_drop) simp
    ultimately show ?thesis by simp
  qed
  from ids d b show ?thesis by blast
qed

theorem custom_namespace_ids_witness:
  "inj_on (\<lambda>n::nat. n) {..<length (snd (getMetricDataForQueriesForCustomNamespace exHelpers
      (\<lambda>n. n) exCustomNamespace ''eu-west-1'' (Some ''123'') exCloudwatch))}
   \<and> distinct (map MetricID (snd (getMetricDataForQueriesForCustomNamespace exHelpers
      (\<lambda>n. n) exCustomNamespace ''eu-west-1'' (Some ''123'') exCloudwatch)))"
proof -
  let ?qs = "snd (getMetricDataForQueriesForCustomNamespace exHelpers
      (\<lambda>n. n) exCustomNamespace ''eu-west-1'' (Some ''123'') exCloudwatch)"
  have i: "inj_on (\<lambda>n::nat. n) {..<length ?qs}" by simp
  from custom_namespace_ids[of exHelpers "\<lambda>n. n" exCustomNamespace "''eu-west-1''"
      "Some ''123''" exCloudwatch]
  have "distinct (map MetricID ?qs) = inj_on (\<lambda>n::nat. n) {..<length ?qs}" by blast
  with i show ?thesis by blast
qed

end
